theory Spec2Isabelle
  imports Main "HOL-Library.Word"
begin

section \<open>Data and external collaborators\<close>

text \<open>
  A \<open>Uint8Array\<close> (and a Node \<open>Buffer\<close>) is a list of bytes. A JavaScript string is a
  \<open>string\<close>, read as the UTF-8 bytes of the text. A thrown \<open>Error\<close> is its message.
\<close>

type_synonym bytes = "8 word list"

datatype error = Error string

text \<open>\<open>Buffer.from(str)\<close>: the UTF-8 bytes of the string.\<close>

definition Buffer_from :: "string \<Rightarrow> bytes" where
  "Buffer_from s = map (\<lambda>c. word_of_nat (of_char c)) s"

text \<open>\<open>constants.AddressZero\<close> of ethers.\<close>

definition AddressZero :: string where
  "AddressZero = ''0x0000000000000000000000000000000000000000''"

text \<open>
  A JavaScript \<open>number\<close> is an IEEE double. \<open>Integer n\<close> is the finite number whose value
  is the integer \<open>n\<close> (which a double can hold); \<open>Other\<close> is every other number, that is
  a fraction, \<open>NaN\<close> or an infinity, and what arithmetic makes of those is not followed.
  The sum, difference and product of two integers is the exact result rounded to the
  nearest double, to the even significand on a tie, and an infinity beyond the range.
\<close>

datatype number = Integer int | Other

function bit_width :: "nat \<Rightarrow> nat" where
  "bit_width n = (if n = 0 then 0 else Suc (bit_width (n div 2)))"
  by pat_completeness auto
termination
  by (relation "measure id") auto

text \<open>A double has a significand of 53 bits: below \<open>2 ^ 53\<close> every integer is exact.\<close>

definition round_to_double :: "int \<Rightarrow> int" where
  "round_to_double n =
     (if \<bar>n\<bar> < 2 ^ 53 then n
      else
        let e = bit_width (nat \<bar>n\<bar>) - 53;
            q = \<bar>n\<bar> div 2 ^ e;
            r = \<bar>n\<bar> mod 2 ^ e
        in sgn n * (if 2 ^ e < 2 * r \<or> (2 * r = 2 ^ e \<and> odd q) then q + 1 else q) * 2 ^ e)"

definition to_number :: "int \<Rightarrow> number" where
  "to_number n =
     (if \<bar>round_to_double n\<bar> < 2 ^ 1024 then Integer (round_to_double n) else Other)"

definition js_add :: "number \<Rightarrow> number \<Rightarrow> number" where
  "js_add a b = (case (a, b) of (Integer x, Integer y) \<Rightarrow> to_number (x + y) | _ \<Rightarrow> Other)"

definition js_sub :: "number \<Rightarrow> number \<Rightarrow> number" where
  "js_sub a b = (case (a, b) of (Integer x, Integer y) \<Rightarrow> to_number (x - y) | _ \<Rightarrow> Other)"

definition js_mul :: "number \<Rightarrow> number \<Rightarrow> number" where
  "js_mul a b = (case (a, b) of (Integer x, Integer y) \<Rightarrow> to_number (x * y) | _ \<Rightarrow> Other)"

text \<open>
  Every call that leaves the SDK (to the wallet's signer, to tweetnacl, over HTTP, to a
  method of the ethers \<open>Contract\<close>) is recorded, oldest first, with the arguments it was
  given.
\<close>

type_synonym typed_fields = "(string \<times> string) list"

datatype typed_value = TString string | TNumber int

type_synonym typed_message = "(string \<times> typed_value) list"

record constraint_arg =
  ca_identifier :: string
  ca_allowedToUse :: "int option"
  ca_signer :: string
  ca_totalUsed :: int

record create_args =
  cr_identifier :: string
  cr_cid :: string
  cr_encryptedCid :: string
  cr_descriptionCid :: string
  cr_constraints :: "constraint_arg list"
  cr_agreementCallback :: string
  cr_signatureCallback :: string
  cr_extraInfo :: bytes

record sign_args =
  sg_identifier :: string
  sg_encryptedCid :: string
  sg_agreementOwner :: string
  sg_agreementIndex :: int
  sg_extraInfo :: bytes

datatype call =
    GetAddress
  | SignMessage string
  | SignTypedData typed_fields "(string \<times> typed_fields) list" typed_message
  | Secretbox bytes bytes bytes
  | SecretboxOpen bytes bytes bytes
  | HttpGet string
  | HttpPost string bytes string
  | LedgerGetProfile
  | LedgerGetAgreements string number number
  | LedgerGetSignatures string number number
  | LedgerCreateAgreement create_args
  | LedgerSign sign_args

text \<open>
  An asynchronous computation is the list of calls it issued and its outcome: the error it
  rejected with (\<open>Inl\<close>) or the value it resolved to (\<open>Inr\<close>).
\<close>

type_synonym 'a io = "call list \<times> (error + 'a)"

definition io_return :: "'a \<Rightarrow> 'a io" where
  "io_return x = ([], Inr x)"

definition io_throw :: "error \<Rightarrow> 'a io" where
  "io_throw e = ([], Inl e)"

text \<open>Issue call \<open>c\<close>; \<open>r\<close> is what the collaborator answers.\<close>

definition io_call :: "call \<Rightarrow> error + 'a \<Rightarrow> 'a io" where
  "io_call c r = ([c], r)"

text \<open>\<open>await m\<close>, then continue with \<open>f\<close>; a rejection ends the function.\<close>

definition io_bind :: "'a io \<Rightarrow> ('a \<Rightarrow> 'b io) \<Rightarrow> 'b io" where
  "io_bind m f =
     (case m of
        (t, Inl e) \<Rightarrow> (t, Inl e)
      | (t, Inr x) \<Rightarrow> (case f x of (t', r) \<Rightarrow> (t @ t', r)))"

text \<open>
  \<open>Promise.all\<close>: every member has been started before the first one is awaited, so the
  calls of all members are issued whether or not one of them rejects. How the calls of
  the members interleave, and which of several rejections comes first, depends on timing,
  which is not followed: the calls are listed member by member, and of several rejections
  the leftmost is reported.
\<close>

definition promise_all2 :: "'a io \<Rightarrow> 'b io \<Rightarrow> ('a \<times> 'b) io" where
  "promise_all2 m1 m2 =
     (fst m1 @ fst m2,
      case snd m1 of
        Inl e \<Rightarrow> Inl e
      | Inr x \<Rightarrow> (case snd m2 of Inl e \<Rightarrow> Inl e | Inr y \<Rightarrow> Inr (x, y)))"

definition promise_all3 :: "'a io \<Rightarrow> 'b io \<Rightarrow> 'c io \<Rightarrow> ('a \<times> 'b \<times> 'c) io" where
  "promise_all3 m1 m2 m3 = promise_all2 m1 (promise_all2 m2 m3)"

text \<open>
  The libraries the SDK imports are parameters: tweetnacl's \<open>secretbox\<close> (which throws on
  a key or nonce of the wrong size) and \<open>secretbox.open\<close> (\<open>null\<close>, here \<open>None\<close>, when
  authentication fails), ipfs-car's \<open>packToBlob\<close> (root and CAR blob), ipfs-unixfs's
  \<open>marshal\<close>, the dag-pb codec, the SHA-256 hasher, the \<open>CID\<close> class of multiformats and
  \<open>JSON.stringify\<close> on a description list.
\<close>

text \<open>
  The entries of the description that \<open>ZKsigAgreement.getDescription\<close> returns and that
  \<open>createAgreement\<close> of contract.ts receives. The class reads \<open>identifier\<close>,
  \<open>allowedToUse\<close> and \<open>signer\<close> of an entry; contract.ts types an entry as
  \<open>{identifier, fields}\<close>. A property that an entry lacks reads as \<open>undefined\<close>, here
  \<open>None\<close>.
\<close>

record description =
  d_identifier :: string
  d_signer :: "string option"
  d_allowedToUse :: "int option"
  d_fields :: "string list"

datatype unixfs = UnixFS (fs_type: string) (fs_data: bytes)

datatype pbnode = PBNode (pb_Data: bytes) (pb_Links: "bytes list")

record ('cid, 'digest) lib =
  secretbox :: "bytes \<Rightarrow> bytes \<Rightarrow> bytes \<Rightarrow> error + bytes"
  secretbox_open :: "bytes \<Rightarrow> bytes \<Rightarrow> bytes \<Rightarrow> error + bytes option"
  packToBlob :: "bytes \<Rightarrow> 'cid \<times> bytes"
  marshal :: "unixfs \<Rightarrow> bytes"
  codec_code :: nat
  codec_encode :: "pbnode \<Rightarrow> bytes"
  sha256_digest :: "bytes \<Rightarrow> 'digest"
  CID_create :: "nat \<Rightarrow> nat \<Rightarrow> 'digest \<Rightarrow> 'cid"
  toV1 :: "'cid \<Rightarrow> 'cid"
  toString :: "'cid \<Rightarrow> string"
  JSON_stringify :: "description list \<Rightarrow> string"

text \<open>The \<open>fetch\<close> of the platform: a GET of a URL, and a POST of a named blob to a URL.\<close>

record response =
  res_ok :: bool
  res_body :: bytes

record net =
  fetch_get :: "string \<Rightarrow> error + response"
  fetch_post :: "string \<Rightarrow> bytes \<Rightarrow> string \<Rightarrow> error + response"

section \<open>files.ts\<close>

definition downloadAndDecrypt ::
  "('cid, 'digest) lib \<Rightarrow> net \<Rightarrow> string \<Rightarrow> bytes \<Rightarrow> bytes io" where
  "downloadAndDecrypt L N cid encryptionPWBytes =
     io_bind (io_call (HttpGet (''https://w3s.link/ipfs/'' @ cid))
                (fetch_get N (''https://w3s.link/ipfs/'' @ cid)))
       (\<lambda>res.
          if \<not> res_ok res then io_throw (Error ''Could not fetch agreement from IPFS'')
          else
            io_bind (io_call (SecretboxOpen (res_body res) (replicate 24 0)
                                (take 32 encryptionPWBytes))
                       (secretbox_open L (res_body res) (replicate 24 0)
                          (take 32 encryptionPWBytes)))
              (\<lambda>pdf. case pdf of
                        None \<Rightarrow> io_throw (Error ''Agreement decryption failed'')
                      | Some p \<Rightarrow> io_return p))"

definition pinFile ::
  "('cid, 'digest) lib \<Rightarrow> net \<Rightarrow> bytes \<Rightarrow> string \<Rightarrow> string io" where
  "pinFile L N file name =
     (case packToBlob L file of
        (root, car) \<Rightarrow>
          io_bind (io_call (HttpPost ''/api/upload'' car name)
                     (fetch_post N ''/api/upload'' car name))
            (\<lambda>res.
               if \<not> res_ok res then io_throw (Error ''Unable to pin file to IPFS'')
               else io_return (toString L (toV1 L root))))"

definition encryptAgreementAndPin ::
  "('cid, 'digest) lib \<Rightarrow> net \<Rightarrow> bytes \<Rightarrow> string \<Rightarrow> bytes \<Rightarrow> string io" where
  "encryptAgreementAndPin L N pdf name encryptionPWBytes =
     io_bind (io_call (Secretbox pdf (replicate 24 0) (take 32 encryptionPWBytes))
                (secretbox L pdf (replicate 24 0) (take 32 encryptionPWBytes)))
       (\<lambda>encrypted. pinFile L N encrypted name)"

section \<open>types.ts\<close>

text \<open>
  A \<open>BigNumber\<close> is an integer, and so is a \<open>number\<close> field that the SDK only passes on.
\<close>

record profile =
  totalAgreements :: int
  totalSignatures :: int

record signature_constraint =
  sc_identifier :: string
  sc_signer :: string
  sc_totalUsed :: int
  sc_allowedToUse :: int

record agreement =
  a_owner :: string
  a_status :: int
  a_index :: int
  a_identifier :: string
  a_cid :: string
  a_encryptedCid :: string
  a_descriptionCid :: string
  a_signedPackets :: int
  a_totalPackets :: int
  a_constraints :: "signature_constraint list"
  a_agreementCallback :: string
  a_signatureCallback :: string

record signature_packet =
  p_agreementOwner :: string
  p_agreementIndex :: int
  p_index :: int
  p_identifier :: string
  p_encryptedCid :: string
  p_signer :: string
  p_timestamp :: int
  p_blockNumber :: int

section \<open>The signer and the smart contract\<close>

text \<open>
  An ethers \<open>Signer\<close> answers \<open>getAddress()\<close>, \<open>signMessage(message)\<close> and
  \<open>_signTypedData(domain, types, value)\<close>; a signature comes back as a hex string, and
  each request may be rejected.
\<close>

record signer =
  getAddress :: "error + string"
  signMessage :: "string \<Rightarrow> error + string"
  signTypedData ::
    "typed_fields \<Rightarrow> (string \<times> typed_fields) list \<Rightarrow> typed_message \<Rightarrow> error + string"

text \<open>
  The ethers \<open>Contract\<close> bound to the DigitalSignature ABI: what each method answers to
  the arguments it is handed (a transaction is named by its hash).
\<close>

record ledger =
  ledger_getProfile :: "error + profile"
  ledger_getAgreements :: "string \<Rightarrow> number \<Rightarrow> number \<Rightarrow> error + agreement list"
  ledger_getSignatures :: "string \<Rightarrow> number \<Rightarrow> number \<Rightarrow> error + signature_packet list"
  ledger_createAgreement :: "create_args \<Rightarrow> error + string"
  ledger_sign :: "sign_args \<Rightarrow> error + string"

text \<open>\<open>const [x] = xs\<close>: the first element, \<open>undefined\<close> (here \<open>None\<close>) for an empty array.\<close>

definition first_of :: "'a list \<Rightarrow> 'a option" where
  "first_of xs = (case xs of [] \<Rightarrow> None | x # _ \<Rightarrow> Some x)"

section \<open>encrypt.ts\<close>

definition domain :: typed_fields where
  "domain = [(''name'', ''ZKsig Digital Signatures''), (''version'', ''1'')]"

definition encryptionTypes :: "(string \<times> typed_fields) list" where
  "encryptionTypes =
     [(''Agreement'',
       [(''Owner Address'', ''address''),
        (''Agreement Identifier'', ''string''),
        (''CID'', ''string'')])]"

text \<open>The argument is \<open>Pick<Agreement, "owner" | "identifier" | "cid">\<close>: the three fields.\<close>

definition getAgreementEncryptionMessage ::
  "signer \<Rightarrow> string \<Rightarrow> string \<Rightarrow> string \<Rightarrow> bytes io" where
  "getAgreementEncryptionMessage S owner identifier cid =
     io_bind
       (io_call
          (SignTypedData domain encryptionTypes
             [(''Owner Address'', TString owner),
              (''Agreement Identifier'', TString identifier),
              (''CID'', TString cid)])
          (signTypedData S domain encryptionTypes
             [(''Owner Address'', TString owner),
              (''Agreement Identifier'', TString identifier),
              (''CID'', TString cid)]))
       (\<lambda>msg. io_return (Buffer_from msg))"

section \<open>contract.ts\<close>

text \<open>
  \<open>new Contract(addressOrName, abi)\<close> of ethers v5, built without a signer or provider:
  a string that is not an address would have to be resolved as an ENS name, which needs a
  provider, and the constructor throws. The empty string, the only one contract.ts
  passes, is not an address. \<open>G\<close> stands for the contract that an address names.
\<close>

definition new_Contract :: "string \<Rightarrow> ledger \<Rightarrow> error + ledger" where
  "new_Contract addressOrName G =
     (if addressOrName = []
      then Inl (Error ''provider is required to use ENS name as contract address'')
      else Inr G)"

text \<open>\<open>connect\<close> gives the contract connected to the provider or the signer.\<close>

definition getContractWithProvider :: "ledger \<Rightarrow> error + ledger" where
  "getContractWithProvider G =
     (case new_Contract [] G of Inl e \<Rightarrow> Inl e | Inr contract \<Rightarrow> Inr contract)"

definition getContractWithSigner :: "ledger \<Rightarrow> signer \<Rightarrow> error + ledger" where
  "getContractWithSigner G S =
     (case new_Contract [] G of Inl e \<Rightarrow> Inl e | Inr contract \<Rightarrow> Inr contract)"

definition getProfile :: "ledger \<Rightarrow> signer \<Rightarrow> profile io" where
  "getProfile G S =
     io_bind ([], getContractWithSigner G S)
       (\<lambda>contract. io_call LedgerGetProfile (ledger_getProfile contract))"

text \<open>\<open>perPage = 10\<close> is the default of an omitted \<open>perPage\<close>.\<close>

definition getAgreements ::
  "ledger \<Rightarrow> string \<Rightarrow> number \<Rightarrow> number option \<Rightarrow> agreement list io" where
  "getAgreements G address page perPage_opt =
     (let perPage = (case perPage_opt of None \<Rightarrow> Integer 10 | Some n \<Rightarrow> n) in
     io_bind ([], getContractWithProvider G)
       (\<lambda>contract.
          io_call (LedgerGetAgreements address (js_mul (js_sub page (Integer 1)) perPage) perPage)
            (ledger_getAgreements contract address (js_mul (js_sub page (Integer 1)) perPage)
               perPage)))"

definition getAgreement :: "ledger \<Rightarrow> string \<Rightarrow> number \<Rightarrow> agreement option io" where
  "getAgreement G address index =
     io_bind (getAgreements G address (js_add index (Integer 1)) (Some (Integer 1)))
       (\<lambda>xs. io_return (first_of xs))"

definition getSignatures ::
  "ledger \<Rightarrow> string \<Rightarrow> number \<Rightarrow> number option \<Rightarrow> signature_packet list io" where
  "getSignatures G address page perPage_opt =
     (let perPage = (case perPage_opt of None \<Rightarrow> Integer 10 | Some n \<Rightarrow> n) in
     io_bind ([], getContractWithProvider G)
       (\<lambda>contract.
          io_call (LedgerGetSignatures address (js_mul (js_sub page (Integer 1)) perPage) perPage)
            (ledger_getSignatures contract address (js_mul (js_sub page (Integer 1)) perPage)
               perPage)))"

definition getSignature :: "ledger \<Rightarrow> string \<Rightarrow> number \<Rightarrow> signature_packet option io" where
  "getSignature G address index =
     io_bind (getSignatures G address (js_add index (Integer 1)) (Some (Integer 1)))
       (\<lambda>xs. io_return (first_of xs))"

text \<open>
  The content identifier of a PDF as \<open>createAgreement\<close> computes it (contract.ts lines
  148 to 153, and the earlier revision of the class): a version 0 \<open>CID\<close> over the SHA-256
  digest of the dag-pb encoding of a node whose data is the marshalled UnixFS file and
  whose links are empty.
\<close>

definition pdf_cid :: "('cid, 'digest) lib \<Rightarrow> bytes \<Rightarrow> 'cid" where
  "pdf_cid L pdf =
     (let data = UnixFS ''file'' pdf
      in CID_create L 0 (codec_code L)
           (sha256_digest L (codec_encode L (PBNode (marshal L data) []))))"

text \<open>
  \<open>contract.createAgreement({...}).wait(1)\<close>: the method of the contract is called and
  returns a Promise, which has no \<open>wait\<close>; calling it throws a \<open>TypeError\<close>. The same holds
  for \<open>contract.sign({...}).wait(1)\<close>.
\<close>

definition createAgreement ::
  "('cid, 'digest) lib \<Rightarrow> net \<Rightarrow> ledger \<Rightarrow> signer \<Rightarrow> string \<Rightarrow> bytes \<Rightarrow> description list
     \<Rightarrow> string io" where
  "createAgreement L N G S identifier pdf descr =
     io_bind ([], getContractWithSigner G S)
       (\<lambda>contract.
     io_bind (io_call GetAddress (getAddress S))
       (\<lambda>address.
     io_bind (io_call (SignMessage (''Encrypt PDF for '' @ identifier))
                (signMessage S (''Encrypt PDF for '' @ identifier)))
       (\<lambda>sig.
          let pw = Buffer_from sig;
              cid = pdf_cid L pdf;
              constraints =
                map (\<lambda>d. \<lparr>ca_identifier = d_identifier d,
                          ca_allowedToUse = Some 1,
                          ca_signer = AddressZero,
                          ca_totalUsed = 0\<rparr>) descr
          in
     io_bind (promise_all2
                (encryptAgreementAndPin L N pdf (address @ '' - '' @ identifier) pw)
                (pinFile L N (Buffer_from (JSON_stringify L descr))
                   (''Description: '' @ address @ '' - '' @ identifier)))
       (\<lambda>(encryptedCid, descriptionCid).
          let args = \<lparr>cr_identifier = identifier,
                      cr_cid = toString L (toV1 L cid),
                      cr_encryptedCid = encryptedCid,
                      cr_descriptionCid = descriptionCid,
                      cr_constraints = constraints,
                      cr_agreementCallback = AddressZero,
                      cr_signatureCallback = AddressZero,
                      cr_extraInfo = Buffer_from []\<rparr>
          in
     io_bind (io_call (LedgerCreateAgreement args) (Inr (ledger_createAgreement contract args)))
       (\<lambda>promise.
          io_throw (Error ''TypeError: contract.createAgreement(...).wait is not a function''))))))"

definition sign ::
  "('cid, 'digest) lib \<Rightarrow> net \<Rightarrow> ledger \<Rightarrow> signer \<Rightarrow> agreement \<Rightarrow> string \<Rightarrow> bytes \<Rightarrow> string io"
  where
  "sign L N G S agreement identifier pdf =
     io_bind ([], getContractWithSigner G S)
       (\<lambda>contract.
     io_bind (io_call GetAddress (getAddress S))
       (\<lambda>address.
     io_bind (io_call (SignMessage (''Encrypt PDF for '' @ identifier))
                (signMessage S (''Encrypt PDF for '' @ identifier)))
       (\<lambda>sig.
          let pw = Buffer_from sig in
     io_bind (encryptAgreementAndPin L N pdf (address @ '' - '' @ identifier) pw)
       (\<lambda>encryptedCid.
          let args = \<lparr>sg_identifier = identifier,
                      sg_encryptedCid = encryptedCid,
                      sg_agreementOwner = a_owner agreement,
                      sg_agreementIndex = a_index agreement,
                      sg_extraInfo = Buffer_from []\<rparr>
          in
     io_bind (io_call (LedgerSign args) (Inr (ledger_sign contract args)))
       (\<lambda>promise. io_throw (Error ''TypeError: contract.sign(...).wait is not a function''))))))"

section \<open>ZKsigDigitalSignatureContract.ts\<close>

text \<open>
  An instance holds the contract address and the ethers \<open>Contract\<close>, whose \<open>signer\<close> is
  \<open>null\<close> (here \<open>None\<close>) when none was given. The methods of the class carry the prefix
  \<open>zk_\<close>, since contract.ts exports functions of the same names.
\<close>

record zksig =
  contractAddress :: string
  contract_signer :: "signer option"
  contract_ledger :: ledger

text \<open>
  The \<open>ZKsigAgreement\<close> object handed to \<open>createAgreement\<close> is a parameter
  (ZKsigAgreement.ts is not among the sources): what the four methods that the class
  calls answer, the two asynchronous ones possibly with a rejection.
\<close>

record 'cid zksig_agreement =
  getIdentifier :: string
  getDescription :: "description list"
  getCID :: "error + 'cid"
  toBytes :: "error + bytes"

definition readyCheck :: "zksig \<Rightarrow> unit io" where
  "readyCheck C =
     (if contract_signer C = None
      then io_throw (Error ''Use `setSigner` to set an ethers Signer before using contract'')
      else io_return ())"

text \<open>
  \<open>this._contract.signer.m(...)\<close>: a method of the signer; on a \<open>null\<close> signer the
  property access throws a \<open>TypeError\<close>.
\<close>

definition with_signer :: "zksig \<Rightarrow> (signer \<Rightarrow> 'a io) \<Rightarrow> 'a io" where
  "with_signer C f =
     (case contract_signer C of
        None \<Rightarrow> io_throw (Error ''TypeError: Cannot read properties of null'')
      | Some S \<Rightarrow> f S)"

text \<open>\<open>address || (await this._contract.signer.getAddress())\<close>\<close>

definition address_or_signer :: "zksig \<Rightarrow> string option \<Rightarrow> string io" where
  "address_or_signer C address =
     (case address of
        Some a \<Rightarrow>
          if a \<noteq> [] then io_return a
          else with_signer C (\<lambda>S. io_call GetAddress (getAddress S))
      | None \<Rightarrow> with_signer C (\<lambda>S. io_call GetAddress (getAddress S)))"

definition zk_getAgreementEncryptionMessage :: "zksig \<Rightarrow> agreement \<Rightarrow> bytes io" where
  "zk_getAgreementEncryptionMessage C agreement =
     io_bind (readyCheck C)
       (\<lambda>_. with_signer C
          (\<lambda>S. getAgreementEncryptionMessage S (a_owner agreement) (a_identifier agreement)
                 (a_cid agreement)))"

definition zk_getProfile :: "zksig \<Rightarrow> profile io" where
  "zk_getProfile C =
     io_bind (readyCheck C)
       (\<lambda>_. io_call LedgerGetProfile (ledger_getProfile (contract_ledger C)))"

definition zk_getAgreements ::
  "zksig \<Rightarrow> string option \<Rightarrow> number \<Rightarrow> number \<Rightarrow> agreement list io" where
  "zk_getAgreements C address page perPage =
     io_bind (readyCheck C)
       (\<lambda>_.
     io_bind (address_or_signer C address)
       (\<lambda>a. io_call (LedgerGetAgreements a (js_mul (js_sub page (Integer 1)) perPage) perPage)
              (ledger_getAgreements (contract_ledger C) a
                 (js_mul (js_sub page (Integer 1)) perPage) perPage)))"

definition zk_getAgreement ::
  "zksig \<Rightarrow> string option \<Rightarrow> number \<Rightarrow> agreement option io" where
  "zk_getAgreement C address index =
     io_bind (readyCheck C)
       (\<lambda>_.
     io_bind (zk_getAgreements C address (js_add index (Integer 1)) (Integer 1))
       (\<lambda>xs. io_return (first_of xs)))"

definition zk_getAgreementPDF ::
  "('cid, 'digest) lib \<Rightarrow> net \<Rightarrow> zksig \<Rightarrow> agreement \<Rightarrow> bytes option \<Rightarrow> bytes io" where
  "zk_getAgreementPDF L N C agreement pw_opt =
     io_bind (case pw_opt of
                None \<Rightarrow> zk_getAgreementEncryptionMessage C agreement
              | Some pw \<Rightarrow> io_return pw)
       (\<lambda>pw. downloadAndDecrypt L N (a_encryptedCid agreement) pw)"

definition zk_getSignatures ::
  "zksig \<Rightarrow> string option \<Rightarrow> number \<Rightarrow> number \<Rightarrow> signature_packet list io" where
  "zk_getSignatures C address page perPage =
     io_bind (readyCheck C)
       (\<lambda>_.
     io_bind (address_or_signer C address)
       (\<lambda>a. io_call (LedgerGetSignatures a (js_mul (js_sub page (Integer 1)) perPage) perPage)
              (ledger_getSignatures (contract_ledger C) a
                 (js_mul (js_sub page (Integer 1)) perPage) perPage)))"

definition zk_getSignature ::
  "zksig \<Rightarrow> string option \<Rightarrow> number \<Rightarrow> signature_packet option io" where
  "zk_getSignature C address index =
     io_bind (readyCheck C)
       (\<lambda>_.
     io_bind (zk_getSignatures C address (js_add index (Integer 1)) (Integer 1))
       (\<lambda>xs. io_return (first_of xs)))"

text \<open>The packet is \<open>Pick<SignaturePacket, "encryptedCid">\<close>: its one field.\<close>

definition zk_getSignaturePDF ::
  "('cid, 'digest) lib \<Rightarrow> net \<Rightarrow> zksig \<Rightarrow> agreement \<Rightarrow> string \<Rightarrow> bytes io" where
  "zk_getSignaturePDF L N C agreement packet_encryptedCid =
     io_bind (zk_getAgreementEncryptionMessage C agreement)
       (\<lambda>pw. downloadAndDecrypt L N packet_encryptedCid pw)"

text \<open>\<open>signer || constants.AddressZero\<close>: an omitted or empty signer is the zero address.\<close>

definition class_constraints :: "description list \<Rightarrow> constraint_arg list" where
  "class_constraints descr =
     map (\<lambda>d. \<lparr>ca_identifier = d_identifier d,
               ca_allowedToUse = d_allowedToUse d,
               ca_signer = (case d_signer d of
                              None \<Rightarrow> AddressZero
                            | Some s \<Rightarrow> if s \<noteq> [] then s else AddressZero),
               ca_totalUsed = 0\<rparr>) descr"

definition zk_createAgreement ::
  "('cid, 'digest) lib \<Rightarrow> net \<Rightarrow> zksig \<Rightarrow> 'cid zksig_agreement \<Rightarrow> string io" where
  "zk_createAgreement L N C agreement =
     io_bind (readyCheck C)
       (\<lambda>_.
     io_bind (promise_all3
                (with_signer C (\<lambda>S. io_call GetAddress (getAddress S)))
                ([], getCID agreement)
                ([], toBytes agreement))
       (\<lambda>(address, cid, pdf).
     io_bind (with_signer C
                (\<lambda>S. getAgreementEncryptionMessage S address (getIdentifier agreement)
                       (toString L (toV1 L cid))))
       (\<lambda>pw.
          let constraints = class_constraints (getDescription agreement) in
     io_bind (promise_all2
                (encryptAgreementAndPin L N pdf
                   (address @ '' - '' @ getIdentifier agreement) pw)
                (pinFile L N (Buffer_from (JSON_stringify L (getDescription agreement)))
                   (''Description: '' @ address @ '' - '' @ getIdentifier agreement)))
       (\<lambda>(encryptedCid, descriptionCid).
          let args = \<lparr>cr_identifier = getIdentifier agreement,
                      cr_cid = toString L (toV1 L cid),
                      cr_encryptedCid = encryptedCid,
                      cr_descriptionCid = descriptionCid,
                      cr_constraints = constraints,
                      cr_agreementCallback = AddressZero,
                      cr_signatureCallback = AddressZero,
                      cr_extraInfo = Buffer_from []\<rparr>
          in io_call (LedgerCreateAgreement args)
               (ledger_createAgreement (contract_ledger C) args)))))"

definition zk_sign ::
  "('cid, 'digest) lib \<Rightarrow> net \<Rightarrow> zksig \<Rightarrow> agreement \<Rightarrow> string \<Rightarrow> bytes \<Rightarrow> string io" where
  "zk_sign L N C agreement identifier pdf =
     io_bind (readyCheck C)
       (\<lambda>_.
     io_bind (promise_all2
                (with_signer C (\<lambda>S. io_call GetAddress (getAddress S)))
                (with_signer C
                   (\<lambda>S. getAgreementEncryptionMessage S (a_owner agreement)
                          (a_identifier agreement) (a_cid agreement))))
       (\<lambda>(address, pw).
     io_bind (encryptAgreementAndPin L N pdf
                (''Signature - '' @ address @ '' - '' @ identifier @ '' on ''
                   @ a_identifier agreement) pw)
       (\<lambda>encryptedCid.
          let args = \<lparr>sg_identifier = identifier,
                      sg_encryptedCid = encryptedCid,
                      sg_agreementOwner = a_owner agreement,
                      sg_agreementIndex = a_index agreement,
                      sg_extraInfo = Buffer_from []\<rparr>
          in io_call (LedgerSign args) (ledger_sign (contract_ledger C) args))))"

subsection \<open>The earlier revision of the class\<close>

text \<open>
  The sources hold an earlier revision of the same class, whose \<open>createAgreement\<close> and
  \<open>sign\<close> differ: the key comes from \<open>signMessage\<close> at creation and from a typed-data
  signature over the \<open>AgreementSigner\<close> fields at signing, and the content identifier is
  computed in place. They carry the prefix \<open>zk0_\<close>.
\<close>

definition zk0_createAgreement ::
  "('cid, 'digest) lib \<Rightarrow> net \<Rightarrow> zksig \<Rightarrow> 'cid zksig_agreement \<Rightarrow> string io" where
  "zk0_createAgreement L N C agreement =
     io_bind (readyCheck C)
       (\<lambda>_.
     io_bind (promise_all3
                (with_signer C (\<lambda>S. io_call GetAddress (getAddress S)))
                (with_signer C
                   (\<lambda>S. io_call (SignMessage (''Encrypt PDF for '' @ getIdentifier agreement))
                          (signMessage S (''Encrypt PDF for '' @ getIdentifier agreement))))
                ([], toBytes agreement))
       (\<lambda>(address, pw, pdf).
          let cid = pdf_cid L pdf;
              constraints = class_constraints (getDescription agreement)
          in
     io_bind (promise_all2
                (encryptAgreementAndPin L N pdf
                   (address @ '' - '' @ getIdentifier agreement) (Buffer_from pw))
                (pinFile L N (Buffer_from (JSON_stringify L (getDescription agreement)))
                   (''Description: '' @ address @ '' - '' @ getIdentifier agreement)))
       (\<lambda>(encryptedCid, descriptionCid).
          let args = \<lparr>cr_identifier = getIdentifier agreement,
                      cr_cid = toString L (toV1 L cid),
                      cr_encryptedCid = encryptedCid,
                      cr_descriptionCid = descriptionCid,
                      cr_constraints = constraints,
                      cr_agreementCallback = AddressZero,
                      cr_signatureCallback = AddressZero,
                      cr_extraInfo = Buffer_from []\<rparr>
          in io_call (LedgerCreateAgreement args)
               (ledger_createAgreement (contract_ledger C) args))))"

definition AgreementSigner :: "(string \<times> typed_fields) list" where
  "AgreementSigner =
     [(''AgreementSigner'',
       [(''Owner Address'', ''address''),
        (''Agreement Identifier'', ''string''),
        (''Agreement Index'', ''uint256''),
        (''Signer Identifier'', ''string'')])]"

definition zk0_sign ::
  "('cid, 'digest) lib \<Rightarrow> net \<Rightarrow> zksig \<Rightarrow> agreement \<Rightarrow> string \<Rightarrow> bytes \<Rightarrow> string io" where
  "zk0_sign L N C agreement identifier pdf =
     io_bind (readyCheck C)
       (\<lambda>_.
     io_bind (promise_all2
                (with_signer C (\<lambda>S. io_call GetAddress (getAddress S)))
                (with_signer C
                   (\<lambda>S. io_call
                          (SignTypedData [] AgreementSigner
                             [(''Owner Address'', TString (a_owner agreement)),
                              (''Agreement Identifier'', TString (a_identifier agreement)),
                              (''Agreement Index'', TNumber (a_index agreement)),
                              (''Signer Identifier'', TString identifier)])
                          (signTypedData S [] AgreementSigner
                             [(''Owner Address'', TString (a_owner agreement)),
                              (''Agreement Identifier'', TString (a_identifier agreement)),
                              (''Agreement Index'', TNumber (a_index agreement)),
                              (''Signer Identifier'', TString identifier)]))))
       (\<lambda>(address, pw).
     io_bind (encryptAgreementAndPin L N pdf
                (''Signature - '' @ address @ '' - '' @ identifier @ '' on ''
                   @ a_identifier agreement) (Buffer_from pw))
       (\<lambda>encryptedCid.
          let args = \<lparr>sg_identifier = identifier,
                      sg_encryptedCid = encryptedCid,
                      sg_agreementOwner = a_owner agreement,
                      sg_agreementIndex = a_index agreement,
                      sg_extraInfo = Buffer_from []\<rparr>
          in io_call (LedgerSign args) (ledger_sign (contract_ledger C) args))))"

section \<open>Reading the record of calls\<close>

fun nacl_nonce :: "call \<Rightarrow> bytes option" where
  "nacl_nonce (Secretbox m n k) = Some n"
| "nacl_nonce (SecretboxOpen c n k) = Some n"
| "nacl_nonce _ = None"

fun nacl_key :: "call \<Rightarrow> bytes option" where
  "nacl_key (Secretbox m n k) = Some k"
| "nacl_key (SecretboxOpen c n k) = Some k"
| "nacl_key _ = None"

fun is_signing_request :: "call \<Rightarrow> bool" where
  "is_signing_request (SignMessage m) = True"
| "is_signing_request (SignTypedData d t v) = True"
| "is_signing_request _ = False"

fun created_args :: "call \<Rightarrow> create_args option" where
  "created_args (LedgerCreateAgreement a) = Some a"
| "created_args _ = None"

text \<open>The nonces and the keys handed to tweetnacl, in the order of the calls.\<close>

definition nacl_nonces :: "call list \<Rightarrow> bytes list" where
  "nacl_nonces t = List.map_filter nacl_nonce t"

definition nacl_keys :: "call list \<Rightarrow> bytes list" where
  "nacl_keys t = List.map_filter nacl_key t"

text \<open>The signatures requested from the signer: each request with its message.\<close>

definition signing_requests :: "call list \<Rightarrow> call list" where
  "signing_requests t = filter is_signing_request t"

text \<open>The records handed to \<open>createAgreement\<close> of the smart contract.\<close>

definition submitted :: "call list \<Rightarrow> create_args list" where
  "submitted t = List.map_filter created_args t"

section \<open>What the specification adds to the sources\<close>

text \<open>
  The spec's \<open>identify(bytes)\<close>, in its words: wrap the bytes as a single-block file node
  with no child links, encode the node with the codec, hash the encoded bytes with
  SHA-256, make the content identifier with the codec's tag, and give its canonical
  string in the current version.
\<close>

definition identify :: "('cid, 'digest) lib \<Rightarrow> bytes \<Rightarrow> string" where
  "identify L B =
     toString L
       (toV1 L
          (CID_create L 0 (codec_code L)
             (sha256_digest L (codec_encode L (PBNode (marshal L (UnixFS ''file'' B)) [])))))"

text \<open>
  Modelled from the spec: ZKsigAgreement.ts, which builds the description, is not among
  the sources. The caller supplies slot descriptions \<open>{identifier, signer?, allowedToUse?}\<close>
  with the defaults signer = wildcard and allowedToUse = 1 (spec 4.6). The description
  that \<open>getDescription\<close> returns has one entry per slot description, in order, with
  \<open>allowedToUse\<close> set to 1 where the caller omitted it; the signer is passed on as given,
  since \<open>createAgreement\<close> of the class applies that default itself.
\<close>

record slot_description =
  s_identifier :: string
  s_signer :: "string option"
  s_allowedToUse :: "int option"
  s_fields :: "string list"

definition describe :: "slot_description \<Rightarrow> description" where
  "describe s =
     \<lparr>d_identifier = s_identifier s,
      d_signer = s_signer s,
      d_allowedToUse = Some (case s_allowedToUse s of None \<Rightarrow> 1 | Some n \<Rightarrow> n),
      d_fields = s_fields s\<rparr>"

datatype deny_reason = NoSuchSlot | WrongSigner | ExhaustedSlot

datatype auth_result = Authorized signature_constraint | Denied deny_reason

text \<open>
  Modelled from the spec: the sources hold no constraint validator (only the type
  \<open>SignatureConstraint\<close> of types.ts); \<open>authorize\<close> follows section 4.5 of the spec. The
  wildcard signer is the zero address.
\<close>

definition authorize :: "signature_constraint list \<Rightarrow> string \<Rightarrow> string \<Rightarrow> auth_result" where
  "authorize constraints slotIdentifier proposed =
     (case find (\<lambda>c. sc_identifier c = slotIdentifier) constraints of
        None \<Rightarrow> Denied NoSuchSlot
      | Some c \<Rightarrow>
          if sc_signer c \<noteq> AddressZero \<and> sc_signer c \<noteq> proposed then Denied WrongSigner
          else if sc_allowedToUse c \<noteq> 0 \<and> sc_totalUsed c \<ge> sc_allowedToUse c
          then Denied ExhaustedSlot
          else Authorized (c\<lparr>sc_totalUsed := sc_totalUsed c + 1\<rparr>))"

text \<open>
  Modelled from the spec: the ledger commits the update the validator computed, that is,
  it replaces the constraint of that identifier.
\<close>

definition commit :: "signature_constraint list \<Rightarrow> signature_constraint \<Rightarrow> signature_constraint list"
  where
  "commit constraints c' =
     map (\<lambda>c. if sc_identifier c = sc_identifier c' then c' else c) constraints"

text \<open>
  \<open>n\<close> calls in a row for the same slot and signer, each one committed before the next;
  \<open>None\<close> as soon as a call is denied.
\<close>

fun authorize_times ::
  "nat \<Rightarrow> signature_constraint list \<Rightarrow> string \<Rightarrow> string \<Rightarrow> signature_constraint list option"
  where
  "authorize_times 0 constraints slotIdentifier proposed = Some constraints"
| "authorize_times (Suc n) constraints slotIdentifier proposed =
     (case authorize constraints slotIdentifier proposed of
        Denied r \<Rightarrow> None
      | Authorized c' \<Rightarrow> authorize_times n (commit constraints c') slotIdentifier proposed)"

section \<open>A small instance of the collaborators\<close>

text \<open>
  The theorems below hold for every library, network, signer and contract. This instance
  shows that their hypotheses can be met: a sealed-envelope \<open>secretbox\<close> with tweetnacl's
  size checks, a content identifier that is the triple of version, codec and digest, a
  network that serves a given table of URLs and accepts every upload, a signer that
  answers every request, and a contract that accepts every transaction.
\<close>

definition example_lib :: "(nat \<times> nat \<times> bytes, bytes) lib" where
  "example_lib =
     \<lparr>secretbox = (\<lambda>m n k.
        if length k \<noteq> 32 then Inl (Error ''bad key size'')
        else if length n \<noteq> 24 then Inl (Error ''bad nonce size'')
        else Inr (k @ n @ m)),
      secretbox_open = (\<lambda>c n k.
        if length k \<noteq> 32 then Inl (Error ''bad key size'')
        else if length n \<noteq> 24 then Inl (Error ''bad nonce size'')
        else Inr (if take 32 c = k \<and> take 24 (drop 32 c) = n then Some (drop 56 c)
                  else None)),
      packToBlob = (\<lambda>file. ((1, 112, file), file)),
      marshal = fs_data,
      codec_code = 112,
      codec_encode = pb_Data,
      sha256_digest = (\<lambda>b. b),
      CID_create = (\<lambda>v c d. (v, c, d)),
      toV1 = (\<lambda>(v, c, d). (1, c, d)),
      toString = (\<lambda>(v, c, d). (if v = 0 then ''Qm'' else ''bafy'')
                     @ replicate (length d) CHR ''x''),
      JSON_stringify = (\<lambda>ds. concat (map d_identifier ds))\<rparr>"

definition example_net :: "(string \<times> bytes) list \<Rightarrow> net" where
  "example_net served =
     \<lparr>fetch_get = (\<lambda>url.
        case map_of served url of
          None \<Rightarrow> Inr \<lparr>res_ok = False, res_body = []\<rparr>
        | Some b \<Rightarrow> Inr \<lparr>res_ok = True, res_body = b\<rparr>),
      fetch_post = (\<lambda>url car name. Inr \<lparr>res_ok = True, res_body = []\<rparr>)\<rparr>"

fun typed_text :: "typed_value \<Rightarrow> string" where
  "typed_text (TString s) = s"
| "typed_text (TNumber n) = ''#''"

text \<open>Two signers; their signatures differ from the first bytes on.\<close>

definition example_signer :: signer where
  "example_signer =
     \<lparr>getAddress = Inr ''0xA11CE'',
      signMessage = (\<lambda>m. Inr (''0xa11ce5'' @ rev m @ ''/padded to the length of a key'')),
      signTypedData = (\<lambda>d t v.
        Inr (''0xa11ce5'' @ concat (map (\<lambda>(k, x). typed_text x) v)
               @ ''/padded to the length of a key''))\<rparr>"

definition example_signer_bob :: signer where
  "example_signer_bob =
     \<lparr>getAddress = Inr ''0xB0B'',
      signMessage = (\<lambda>m. Inr (''0xb0b515'' @ rev m @ ''/padded to the length of a key'')),
      signTypedData = (\<lambda>d t v.
        Inr (''0xb0b515'' @ concat (map (\<lambda>(k, x). typed_text x) v)
               @ ''/padded to the length of a key''))\<rparr>"

definition example_ledger :: ledger where
  "example_ledger =
     \<lparr>ledger_getProfile = Inr \<lparr>totalAgreements = 0, totalSignatures = 0\<rparr>,
      ledger_getAgreements = (\<lambda>a offset limit. Inr []),
      ledger_getSignatures = (\<lambda>a offset limit. Inr []),
      ledger_createAgreement = (\<lambda>a. Inr ''0xtx''),
      ledger_sign = (\<lambda>a. Inr ''0xtx'')\<rparr>"

text \<open>A signature of 35 bytes, and the address under which the gateway serves a file.\<close>

definition example_key :: bytes where
  "example_key = replicate 32 7 @ [1, 2, 3]"

definition example_cid :: string where
  "example_cid = ''bafy'' @ replicate 60 CHR ''x''"

definition example_url :: string where
  "example_url = ''https://w3s.link/ipfs/'' @ example_cid"

definition example_zksig :: "signer option \<Rightarrow> zksig" where
  "example_zksig S =
     \<lparr>contractAddress = ''0xf08b4ddA8581FcA449A58d4225D804043B71AA5c'',
      contract_signer = S,
      contract_ledger = example_ledger\<rparr>"

definition example_slots :: "slot_description list" where
  "example_slots =
     [\<lparr>s_identifier = ''employee'', s_signer = Some ''0xB0B'', s_allowedToUse = Some 2,
       s_fields = []\<rparr>,
      \<lparr>s_identifier = ''witness'', s_signer = None, s_allowedToUse = None, s_fields = []\<rparr>]"

definition example_description :: "description list" where
  "example_description = map describe example_slots"

definition example_zksig_agreement :: "(nat \<times> nat \<times> bytes) zksig_agreement" where
  "example_zksig_agreement =
     \<lparr>getIdentifier = ''lease'',
      getDescription = example_description,
      getCID = Inr (0, 112, [1, 2, 3]),
      toBytes = Inr [37, 80, 68, 70]\<rparr>"

definition example_agreement :: agreement where
  "example_agreement =
     \<lparr>a_owner = ''0xA11CE'', a_status = 0, a_index = 0, a_identifier = ''lease'',
      a_cid = ''bafyxxx'', a_encryptedCid = ''bafyxxxx'', a_descriptionCid = ''bafyx'',
      a_signedPackets = 0, a_totalPackets = 1,
      a_constraints = [\<lparr>sc_identifier = ''employee'', sc_signer = AddressZero,
                         sc_totalUsed = 0, sc_allowedToUse = 1\<rparr>],
      a_agreementCallback = AddressZero, a_signatureCallback = AddressZero\<rparr>"

definition example_constraints :: "signature_constraint list" where
  "example_constraints =
     [\<lparr>sc_identifier = ''employee'', sc_signer = AddressZero,
       sc_totalUsed = 0, sc_allowedToUse = 1\<rparr>,
      \<lparr>sc_identifier = ''witness'', sc_signer = ''0xB0B'',
       sc_totalUsed = 5, sc_allowedToUse = 0\<rparr>]"

section \<open>Calls and outcomes of the building blocks\<close>

lemma fst_io_bind:
  "fst (io_bind m f) = fst m @ (case snd m of Inl e \<Rightarrow> [] | Inr x \<Rightarrow> fst (f x))"
  by (cases m) (auto simp: io_bind_def split: sum.splits prod.splits)

lemma snd_io_bind:
  "snd (io_bind m f) = (case snd m of Inl e \<Rightarrow> Inl e | Inr x \<Rightarrow> snd (f x))"
  by (cases m) (auto simp: io_bind_def split: sum.splits prod.splits)

lemma io_call_simps: "fst (io_call c r) = [c]" "snd (io_call c r) = r"
  by (simp_all add: io_call_def)

lemma io_return_simps: "fst (io_return x) = []" "snd (io_return x) = Inr x"
  by (simp_all add: io_return_def)

lemma io_throw_simps: "fst (io_throw e) = []" "snd (io_throw e) = Inl e"
  by (simp_all add: io_throw_def)

lemma fst_promise_all2: "fst (promise_all2 a b) = fst a @ fst b"
  by (simp add: promise_all2_def)

lemma snd_promise_all2:
  "snd (promise_all2 a b) =
     (case snd a of
        Inl e \<Rightarrow> Inl e
      | Inr x \<Rightarrow> (case snd b of Inl e \<Rightarrow> Inl e | Inr y \<Rightarrow> Inr (x, y)))"
  by (simp add: promise_all2_def)

lemmas io_simps =
  fst_io_bind snd_io_bind io_call_simps io_return_simps io_throw_simps
  fst_promise_all2 snd_promise_all2 promise_all3_def

lemma nacl_nonces_simps:
  "nacl_nonces [] = []"
  "nacl_nonces (c # t) =
     (case nacl_nonce c of None \<Rightarrow> nacl_nonces t | Some n \<Rightarrow> n # nacl_nonces t)"
  "nacl_nonces (s @ t) = nacl_nonces s @ nacl_nonces t"
  by (simp_all add: nacl_nonces_def map_filter_def split: option.splits)

lemma nacl_keys_simps:
  "nacl_keys [] = []"
  "nacl_keys (c # t) = (case nacl_key c of None \<Rightarrow> nacl_keys t | Some k \<Rightarrow> k # nacl_keys t)"
  "nacl_keys (s @ t) = nacl_keys s @ nacl_keys t"
  by (simp_all add: nacl_keys_def map_filter_def split: option.splits)

lemma submitted_simps:
  "submitted [] = []"
  "submitted (c # t) =
     (case created_args c of None \<Rightarrow> submitted t | Some a \<Rightarrow> a # submitted t)"
  "submitted (s @ t) = submitted s @ submitted t"
  by (simp_all add: submitted_def map_filter_def split: option.splits)

lemma signing_requests_simps:
  "signing_requests [] = []"
  "signing_requests (c # t) =
     (if is_signing_request c then c # signing_requests t else signing_requests t)"
  "signing_requests (s @ t) = signing_requests s @ signing_requests t"
  by (simp_all add: signing_requests_def)

lemmas trace_simps =
  nacl_nonces_simps nacl_keys_simps submitted_simps signing_requests_simps

lemma pinFile_calls:
  "fst (pinFile L N file name) = [HttpPost ''/api/upload'' (snd (packToBlob L file)) name]"
  by (simp add: pinFile_def io_simps split: prod.splits sum.splits)

lemma encryptAgreementAndPin_calls:
  "fst (encryptAgreementAndPin L N pdf name pw) =
     Secretbox pdf (replicate 24 0) (take 32 pw) #
     (case secretbox L pdf (replicate 24 0) (take 32 pw) of
        Inl e \<Rightarrow> []
      | Inr c \<Rightarrow> [HttpPost ''/api/upload'' (snd (packToBlob L c)) name])"
  by (simp add: encryptAgreementAndPin_def io_simps pinFile_calls split: sum.splits)

lemma downloadAndDecrypt_calls:
  "fst (downloadAndDecrypt L N cid pw) =
     HttpGet (''https://w3s.link/ipfs/'' @ cid) #
     (case fetch_get N (''https://w3s.link/ipfs/'' @ cid) of
        Inl e \<Rightarrow> []
      | Inr res \<Rightarrow>
          if res_ok res then [SecretboxOpen (res_body res) (replicate 24 0) (take 32 pw)]
          else [])"
  by (simp add: downloadAndDecrypt_def io_simps split: sum.splits option.splits)

lemma getAgreementEncryptionMessage_calls:
  "fst (getAgreementEncryptionMessage S owner identifier cid) =
     [SignTypedData domain encryptionTypes
        [(''Owner Address'', TString owner),
         (''Agreement Identifier'', TString identifier),
         (''CID'', TString cid)]]"
  by (simp add: getAgreementEncryptionMessage_def io_simps split: sum.splits)

lemma getAgreementEncryptionMessage_outcome:
  "snd (getAgreementEncryptionMessage S owner identifier cid) =
     (case signTypedData S domain encryptionTypes
             [(''Owner Address'', TString owner),
              (''Agreement Identifier'', TString identifier),
              (''CID'', TString cid)] of
        Inl e \<Rightarrow> Inl e
      | Inr msg \<Rightarrow> Inr (Buffer_from msg))"
  by (simp add: getAgreementEncryptionMessage_def io_simps split: sum.splits)

lemmas block_calls =
  pinFile_calls encryptAgreementAndPin_calls downloadAndDecrypt_calls
  getAgreementEncryptionMessage_calls getAgreementEncryptionMessage_outcome

section \<open>The content identifier\<close>

lemma createAgreement_cid:
  "\<forall>a \<in> set (submitted (fst (createAgreement L N G S ident B descr))). cr_cid a = identify L B"
  by (simp add: createAgreement_def getContractWithSigner_def new_Contract_def io_simps
        trace_simps)

lemma zk0_createAgreement_cid:
  "toBytes za = Inr B \<Longrightarrow>
     \<forall>a \<in> set (submitted (fst (zk0_createAgreement L N C za))). cr_cid a = identify L B"
  by (simp add: zk0_createAgreement_def io_simps Let_def block_calls trace_simps
        identify_def pdf_cid_def readyCheck_def with_signer_def
        split: sum.splits prod.splits option.splits)

text \<open>
  Claim C1. Whatever \<open>createAgreement\<close> of contract.ts hands to the smart contract carries
  as \<open>cid\<close> the spec's \<open>identify\<close> of the PDF bytes: the bytes wrapped as a UnixFS file
  node without links, encoded with dag-pb, hashed with SHA-256, and the identifier
  normalised to version 1 and printed. The same holds for \<open>createAgreement\<close> of the earlier
  revision of the class, on the bytes of the agreement. The identifier depends on the
  bytes alone: two runs on the same bytes, with any network, contract, signer, agreement
  identifier and description, submit the same string. Nothing excludes the empty input.
\<close>

theorem content_identifier_of_pdf:
  "(\<forall>a \<in> set (submitted (fst (createAgreement L N G S ident pdf descr))).
      cr_cid a = identify L pdf)
   \<and> (toBytes za = Inr pdf \<longrightarrow>
       (\<forall>a \<in> set (submitted (fst (zk0_createAgreement L N C za))). cr_cid a = identify L pdf))
   \<and> (\<forall>a \<in> set (submitted (fst (createAgreement L N G S ident pdf descr))).
       \<forall>b \<in> set (submitted (fst (createAgreement L N' G' S' ident' pdf descr'))).
         cr_cid a = cr_cid b)
   \<and> (\<forall>a \<in> set (submitted (fst (createAgreement L N G S ident [] descr))).
       cr_cid a = identify L [])"
  using createAgreement_cid [of L] zk0_createAgreement_cid [of za pdf L N C] by auto

theorem content_identifier_of_pdf_witness:
  "toBytes example_zksig_agreement = Inr [37, 80, 68, 70]
   \<and> map cr_cid (submitted (fst (zk0_createAgreement example_lib (example_net [])
        (example_zksig (Some example_signer)) example_zksig_agreement)))
     = [identify example_lib [37, 80, 68, 70]]"
proof -
  let ?u = "submitted (fst (zk0_createAgreement example_lib (example_net [])
        (example_zksig (Some example_signer)) example_zksig_agreement))"
  have b: "toBytes example_zksig_agreement = Inr [37, 80, 68, 70]"
    by (simp add: example_zksig_agreement_def)
  have "length ?u = 1" by code_simp
  then obtain a' where u: "?u = [a']" by (cases ?u) auto
  from content_identifier_of_pdf [where L = example_lib and N = "example_net []"
      and G = example_ledger and S = example_signer and ident = "''lease''"
      and pdf = "[37, 80, 68, 70]" and descr = example_description
      and za = example_zksig_agreement and C = "example_zksig (Some example_signer)"
      and N' = "example_net []" and G' = example_ledger and S' = example_signer
      and ident' = "''lease''" and descr' = example_description] b u
  show ?thesis by simp
qed

section \<open>Encryption and decryption\<close>

lemma pinFile_outcome:
  "snd (pinFile L N file name) =
     (case fetch_post N ''/api/upload'' (snd (packToBlob L file)) name of
        Inl e \<Rightarrow> Inl e
      | Inr res \<Rightarrow>
          if res_ok res then Inr (toString L (toV1 L (fst (packToBlob L file))))
          else Inl (Error ''Unable to pin file to IPFS''))"
  by (simp add: pinFile_def io_simps split: prod.splits sum.splits)

lemma encryptAgreementAndPin_outcome:
  "snd (encryptAgreementAndPin L N pdf name pw) =
     (case secretbox L pdf (replicate 24 0) (take 32 pw) of
        Inl e \<Rightarrow> Inl e
      | Inr c \<Rightarrow> snd (pinFile L N c name))"
  by (simp add: encryptAgreementAndPin_def io_simps split: sum.splits)

lemma downloadAndDecrypt_outcome:
  "snd (downloadAndDecrypt L N cid pw) =
     (case fetch_get N (''https://w3s.link/ipfs/'' @ cid) of
        Inl e \<Rightarrow> Inl e
      | Inr res \<Rightarrow>
          if \<not> res_ok res then Inl (Error ''Could not fetch agreement from IPFS'')
          else (case secretbox_open L (res_body res) (replicate 24 0) (take 32 pw) of
                  Inl e \<Rightarrow> Inl e
                | Inr None \<Rightarrow> Inl (Error ''Agreement decryption failed'')
                | Inr (Some p) \<Rightarrow> Inr p))"
  by (simp add: downloadAndDecrypt_def io_simps split: sum.splits option.splits)

lemma example_lib_box:
  "\<forall>m k. length k = 32 \<longrightarrow>
     (\<exists>c. secretbox example_lib m (replicate 24 0) k = Inr c
        \<and> secretbox_open example_lib c (replicate 24 0) k = Inr (Some m))"
  by (simp add: example_lib_def)

lemma example_net_pin:
  "\<forall>car. \<exists>res. fetch_post (example_net served) ''/api/upload'' car name = Inr res \<and> res_ok res"
  by (simp add: example_net_def)

text \<open>
  Claim C2. Let \<open>secretbox\<close> and \<open>secretbox.open\<close> keep tweetnacl's contract at the zero
  nonce (under a key of 32 bytes a box is made, and opening it under the same key gives
  the message back), let the signature \<open>K\<close> have at least 32 bytes, let the upload be
  accepted, and let the gateway serve the pinned ciphertext under the identifier that
  pinning returned. Then \<open>encryptAgreementAndPin\<close> of plaintext \<open>B\<close> under \<open>K\<close> returns an
  identifier, and \<open>downloadAndDecrypt\<close> of that identifier under \<open>K\<close> returns exactly \<open>B\<close>.
\<close>

theorem decrypt_encrypt_roundtrip:
  assumes box: "\<forall>m k. length k = 32 \<longrightarrow>
                  (\<exists>c. secretbox L m (replicate 24 0) k = Inr c
                     \<and> secretbox_open L c (replicate 24 0) k = Inr (Some m))"
      and key: "32 \<le> length K"
      and pin: "\<forall>car. \<exists>res. fetch_post N ''/api/upload'' car name = Inr res \<and> res_ok res"
      and served: "\<forall>c. secretbox L B (replicate 24 0) (take 32 K) = Inr c \<longrightarrow>
                     fetch_get N (''https://w3s.link/ipfs/''
                                   @ toString L (toV1 L (fst (packToBlob L c))))
                       = Inr \<lparr>res_ok = True, res_body = c\<rparr>"
  shows "\<exists>cid. snd (encryptAgreementAndPin L N B name K) = Inr cid
            \<and> snd (downloadAndDecrypt L N cid K) = Inr B"
proof -
  from key have "length (take 32 K) = 32" by simp
  with box obtain c where
    c: "secretbox L B (replicate 24 0) (take 32 K) = Inr c"
       "secretbox_open L c (replicate 24 0) (take 32 K) = Inr (Some B)"
    by blast
  from pin obtain res where
    res: "fetch_post N ''/api/upload'' (snd (packToBlob L c)) name = Inr res" "res_ok res"
    by blast
  let ?cid = "toString L (toV1 L (fst (packToBlob L c)))"
  have "snd (encryptAgreementAndPin L N B name K) = Inr ?cid"
    by (simp add: encryptAgreementAndPin_outcome pinFile_outcome c res)
  moreover from served c have
    "fetch_get N (''https://w3s.link/ipfs/'' @ ?cid) = Inr \<lparr>res_ok = True, res_body = c\<rparr>"
    by blast
  then have "snd (downloadAndDecrypt L N ?cid K) = Inr B"
    by (simp add: downloadAndDecrypt_outcome c)
  ultimately show ?thesis by blast
qed

theorem decrypt_encrypt_roundtrip_witness:
  "32 \<le> length example_key
   \<and> (\<exists>cid. snd (encryptAgreementAndPin example_lib
                (example_net [(example_url, replicate 32 7 @ replicate 24 0 @ [37, 80, 68, 70])])
                [37, 80, 68, 70] ''lease'' example_key) = Inr cid
          \<and> snd (downloadAndDecrypt example_lib
                (example_net [(example_url, replicate 32 7 @ replicate 24 0 @ [37, 80, 68, 70])])
                cid example_key) = Inr [37, 80, 68, 70])"
proof -
  let ?N = "example_net [(example_url, replicate 32 7 @ replicate 24 0 @ [37, 80, 68, 70])]"
  have key: "32 \<le> length example_key"
    by (simp add: example_key_def)
  have served:
    "\<forall>c. secretbox example_lib [37, 80, 68, 70] (replicate 24 0) (take 32 example_key) = Inr c
       \<longrightarrow> fetch_get ?N (''https://w3s.link/ipfs/''
                @ toString example_lib (toV1 example_lib (fst (packToBlob example_lib c))))
            = Inr \<lparr>res_ok = True, res_body = c\<rparr>"
    by (auto simp add: example_lib_def example_net_def example_key_def example_url_def example_cid_def)
  from decrypt_encrypt_roundtrip [OF example_lib_box key example_net_pin served] key
  show ?thesis by simp
qed

section \<open>The key\<close>

lemma same_key_same_run:
  assumes "take 32 S = take 32 S'"
  shows "encryptAgreementAndPin L N pdf name S = encryptAgreementAndPin L N pdf name S'"
    and "downloadAndDecrypt L N cid S = downloadAndDecrypt L N cid S'"
  unfolding encryptAgreementAndPin_def downloadAndDecrypt_def assms by (rule refl)+

text \<open>
  Claim C4. The key handed to tweetnacl is the first 32 bytes of the signature bytes \<open>S\<close>,
  as they are (no hashing): \<open>encryptAgreementAndPin\<close> calls \<open>secretbox\<close> once, with the key
  \<open>take 32 S\<close>, and every \<open>secretbox.open\<close> of \<open>downloadAndDecrypt\<close> has that key. Bytes
  from index 32 on have no effect: two signatures with the same first 32 bytes give the
  same calls and the same outcome, in encryption and in decryption.
\<close>

theorem key_is_first_32_bytes:
  "nacl_keys (fst (encryptAgreementAndPin L N pdf name S)) = [take 32 S]
   \<and> (\<forall>k \<in> set (nacl_keys (fst (downloadAndDecrypt L N cid S))). k = take 32 S)
   \<and> (take 32 S = take 32 S' \<longrightarrow>
        encryptAgreementAndPin L N pdf name S = encryptAgreementAndPin L N pdf name S'
        \<and> downloadAndDecrypt L N cid S = downloadAndDecrypt L N cid S')"
proof -
  have "nacl_keys (fst (encryptAgreementAndPin L N pdf name S)) = [take 32 S]"
    by (simp add: encryptAgreementAndPin_calls trace_simps split: sum.splits)
  moreover have "\<forall>k \<in> set (nacl_keys (fst (downloadAndDecrypt L N cid S))). k = take 32 S"
    by (simp add: downloadAndDecrypt_calls trace_simps split: sum.splits)
  ultimately show ?thesis
    using same_key_same_run [of S S'] by blast
qed

theorem key_is_first_32_bytes_witness:
  "take 32 example_key = take 32 (replicate 32 7 @ [9, 9, 9, 9, 9])
   \<and> nacl_keys (fst (downloadAndDecrypt example_lib
        (example_net [(''https://w3s.link/ipfs/bafyx'', [1, 2])]) ''bafyx'' example_key))
      = [replicate 32 7]
   \<and> encryptAgreementAndPin example_lib (example_net []) [37, 80, 68, 70] ''lease'' example_key
      = encryptAgreementAndPin example_lib (example_net []) [37, 80, 68, 70] ''lease''
          (replicate 32 7 @ [9, 9, 9, 9, 9])
   \<and> downloadAndDecrypt example_lib (example_net [(''https://w3s.link/ipfs/bafyx'', [1, 2])])
        ''bafyx'' example_key
      = downloadAndDecrypt example_lib (example_net [(''https://w3s.link/ipfs/bafyx'', [1, 2])])
        ''bafyx'' (replicate 32 7 @ [9, 9, 9, 9, 9])"
proof -
  have t: "take 32 example_key = take 32 (replicate 32 7 @ [9, 9, 9, 9, 9])"
    by (simp add: example_key_def)
  have k: "nacl_keys (fst (downloadAndDecrypt example_lib
        (example_net [(''https://w3s.link/ipfs/bafyx'', [1, 2])]) ''bafyx'' example_key))
      = [replicate 32 7]"
    by (simp add: downloadAndDecrypt_calls trace_simps example_net_def example_key_def)
  from key_is_first_32_bytes [where S = example_key and S' = "replicate 32 7 @ [9, 9, 9, 9, 9]"
      and L = example_lib and N = "example_net []" and pdf = "[37, 80, 68, 70]"
      and name = "''lease''" and cid = "''bafyx''"]
    key_is_first_32_bytes [where S = example_key and S' = "replicate 32 7 @ [9, 9, 9, 9, 9]"
      and L = example_lib and N = "example_net [(''https://w3s.link/ipfs/bafyx'', [1, 2])]"
      and cid = "''bafyx''"] t k
  show ?thesis by blast
qed

section \<open>The nonce\<close>

lemma encrypt_nonces:
  "nacl_nonces (fst (encryptAgreementAndPin L N pdf name pw)) = [replicate 24 0]"
  by (simp add: encryptAgreementAndPin_calls trace_simps split: sum.splits)

lemma pinFile_nonces: "nacl_nonces (fst (pinFile L N file name)) = []"
  by (simp add: pinFile_calls trace_simps)

lemma download_nonces:
  "\<forall>n \<in> set (nacl_nonces (fst (downloadAndDecrypt L N cid pw))). n = replicate 24 0"
  by (simp add: downloadAndDecrypt_calls trace_simps split: sum.splits)

lemma message_nonces:
  "nacl_nonces (fst (getAgreementEncryptionMessage S owner ident cid)) = []"
  by (simp add: getAgreementEncryptionMessage_calls trace_simps)

lemmas nonce_simps = encrypt_nonces pinFile_nonces message_nonces

lemma createAgreement_nonces:
  "\<forall>n \<in> set (nacl_nonces (fst (createAgreement L N G S ident pdf descr))). n = replicate 24 0"
  by (simp add: createAgreement_def getContractWithSigner_def new_Contract_def io_simps
        trace_simps)

lemma sign_nonces:
  "\<forall>n \<in> set (nacl_nonces (fst (sign L N G S ag ident pdf))). n = replicate 24 0"
  by (simp add: sign_def getContractWithSigner_def new_Contract_def io_simps trace_simps)

lemma zk_createAgreement_nonces:
  "\<forall>n \<in> set (nacl_nonces (fst (zk_createAgreement L N C za))). n = replicate 24 0"
  by (simp add: zk_createAgreement_def io_simps Let_def nonce_simps trace_simps
        readyCheck_def with_signer_def split: sum.splits prod.splits option.splits)

lemma zk_sign_nonces:
  "\<forall>n \<in> set (nacl_nonces (fst (zk_sign L N C ag ident pdf))). n = replicate 24 0"
  by (simp add: zk_sign_def io_simps Let_def nonce_simps trace_simps
        readyCheck_def with_signer_def split: sum.splits prod.splits option.splits)

lemma zk0_createAgreement_nonces:
  "\<forall>n \<in> set (nacl_nonces (fst (zk0_createAgreement L N C za))). n = replicate 24 0"
  by (simp add: zk0_createAgreement_def io_simps Let_def nonce_simps trace_simps
        readyCheck_def with_signer_def split: sum.splits prod.splits option.splits)

lemma zk0_sign_nonces:
  "\<forall>n \<in> set (nacl_nonces (fst (zk0_sign L N C ag ident pdf))). n = replicate 24 0"
  by (simp add: zk0_sign_def io_simps Let_def nonce_simps trace_simps
        readyCheck_def with_signer_def split: sum.splits prod.splits option.splits)

lemma zk_message_nonces:
  "nacl_nonces (fst (zk_getAgreementEncryptionMessage C ag)) = []"
  by (simp add: zk_getAgreementEncryptionMessage_def io_simps nonce_simps trace_simps
        readyCheck_def with_signer_def split: sum.splits option.splits)

lemma zk_getAgreementPDF_nonces:
  "\<forall>n \<in> set (nacl_nonces (fst (zk_getAgreementPDF L N C ag pw_opt))). n = replicate 24 0"
  using download_nonces [of L N "a_encryptedCid ag"]
  by (simp add: zk_getAgreementPDF_def io_simps zk_message_nonces trace_simps
        split: sum.splits option.splits)

lemma zk_getSignaturePDF_nonces:
  "\<forall>n \<in> set (nacl_nonces (fst (zk_getSignaturePDF L N C ag pcid))). n = replicate 24 0"
  using download_nonces [of L N pcid]
  by (simp add: zk_getSignaturePDF_def io_simps zk_message_nonces trace_simps
        split: sum.splits option.splits)

text \<open>
  Claim C5. Every call of \<open>secretbox\<close> and of \<open>secretbox.open\<close> has the nonce of 24 zero
  bytes: the one call of \<open>encryptAgreementAndPin\<close>, every call of \<open>downloadAndDecrypt\<close>,
  and so every call issued by creating an agreement, signing, and fetching a PDF, in the
  functions of contract.ts and in both revisions of the class. No other nonce occurs.
\<close>

theorem nonce_is_all_zero:
  "nacl_nonces (fst (encryptAgreementAndPin L N pdf name pw)) = [replicate 24 0]
   \<and> (\<forall>n \<in> set (nacl_nonces (fst (downloadAndDecrypt L N cid pw))). n = replicate 24 0)
   \<and> (\<forall>n \<in> set (nacl_nonces (fst (createAgreement L N G S ident pdf descr))).
        n = replicate 24 0)
   \<and> (\<forall>n \<in> set (nacl_nonces (fst (sign L N G S ag slot pdf))). n = replicate 24 0)
   \<and> (\<forall>n \<in> set (nacl_nonces (fst (zk_createAgreement L N C za))). n = replicate 24 0)
   \<and> (\<forall>n \<in> set (nacl_nonces (fst (zk_sign L N C ag slot pdf))). n = replicate 24 0)
   \<and> (\<forall>n \<in> set (nacl_nonces (fst (zk_getAgreementPDF L N C ag pw_opt))). n = replicate 24 0)
   \<and> (\<forall>n \<in> set (nacl_nonces (fst (zk_getSignaturePDF L N C ag cid))). n = replicate 24 0)
   \<and> (\<forall>n \<in> set (nacl_nonces (fst (zk0_createAgreement L N C za))). n = replicate 24 0)
   \<and> (\<forall>n \<in> set (nacl_nonces (fst (zk0_sign L N C ag slot pdf))). n = replicate 24 0)"
  by (intro conjI encrypt_nonces download_nonces createAgreement_nonces sign_nonces
        zk_createAgreement_nonces zk_sign_nonces zk_getAgreementPDF_nonces
        zk_getSignaturePDF_nonces zk0_createAgreement_nonces zk0_sign_nonces)

theorem nonce_is_all_zero_witness:
  "nacl_nonces (fst (downloadAndDecrypt example_lib (example_net [(example_url, [1, 2])])
      example_cid example_key)) = [replicate 24 0]
   \<and> nacl_nonces (fst (zk_createAgreement example_lib (example_net [])
        (example_zksig (Some example_signer)) example_zksig_agreement)) = [replicate 24 0]
   \<and> nacl_nonces (fst (zk_sign example_lib (example_net [])
        (example_zksig (Some example_signer)) example_agreement ''employee'' [37, 80, 68, 70]))
      = [replicate 24 0]"
proof -
  let ?N = "example_net []"
  let ?M = "example_net [(example_url, [1, 2])]"
  let ?C = "example_zksig (Some example_signer)"
  note all_zero = nonce_is_all_zero [where L = example_lib and N = ?N and G = example_ledger
        and S = example_signer and ident = "''lease''" and pdf = "[37, 80, 68, 70]"
        and descr = example_description and ag = example_agreement and slot = "''employee''"
        and C = ?C and za = example_zksig_agreement]
  note all_zero' = nonce_is_all_zero [where L = example_lib and N = ?M and cid = example_cid
        and pw = example_key]
  have one: "length xs = 1 \<Longrightarrow> \<forall>n \<in> set xs. n = z \<Longrightarrow> xs = [z]" for xs :: "bytes list" and z
    by (cases xs) auto
  have "length (nacl_nonces (fst (downloadAndDecrypt example_lib ?M example_cid example_key))) = 1"
    by code_simp
  then have a: "nacl_nonces (fst (downloadAndDecrypt example_lib ?M example_cid example_key))
                  = [replicate 24 0]"
    by (rule one) (rule all_zero' [THEN conjunct2, THEN conjunct1])
  have "length (nacl_nonces (fst (zk_createAgreement example_lib ?N ?C
        example_zksig_agreement))) = 1"
    by code_simp
  then have b: "nacl_nonces (fst (zk_createAgreement example_lib ?N ?C
        example_zksig_agreement)) = [replicate 24 0]"
    by (rule one)
       (rule all_zero [THEN conjunct2, THEN conjunct2, THEN conjunct2, THEN conjunct2,
                       THEN conjunct1])
  have "length (nacl_nonces (fst (zk_sign example_lib ?N ?C example_agreement
        ''employee'' [37, 80, 68, 70]))) = 1"
    by code_simp
  then have c: "nacl_nonces (fst (zk_sign example_lib ?N ?C example_agreement
        ''employee'' [37, 80, 68, 70])) = [replicate 24 0]"
    by (rule one)
       (rule all_zero [THEN conjunct2, THEN conjunct2, THEN conjunct2, THEN conjunct2,
                       THEN conjunct2, THEN conjunct1])
  from a b c show ?thesis by simp
qed

section \<open>Failures of decryption\<close>

lemma download_when_answered:
  assumes "fetch_get N (''https://w3s.link/ipfs/'' @ cid) = Inr res"
      and "secretbox_open L (res_body res) (replicate 24 0) (take 32 pw) = Inr r"
  shows "downloadAndDecrypt L N cid pw =
           (if \<not> res_ok res
            then ([HttpGet (''https://w3s.link/ipfs/'' @ cid)],
                  Inl (Error ''Could not fetch agreement from IPFS''))
            else ([HttpGet (''https://w3s.link/ipfs/'' @ cid),
                   SecretboxOpen (res_body res) (replicate 24 0) (take 32 pw)],
                  case r of None \<Rightarrow> Inl (Error ''Agreement decryption failed'')
                          | Some p \<Rightarrow> Inr p))"
  using assms
  by (intro prod_eqI)
     (simp_all add: downloadAndDecrypt_outcome downloadAndDecrypt_calls split: option.splits)

lemma download_not_found:
  assumes "fetch_get N (''https://w3s.link/ipfs/'' @ cid) = Inr res" and "\<not> res_ok res"
  shows "downloadAndDecrypt L N cid pw =
           ([HttpGet (''https://w3s.link/ipfs/'' @ cid)],
            Inl (Error ''Could not fetch agreement from IPFS''))"
  using assms
  by (intro prod_eqI) (simp_all add: downloadAndDecrypt_outcome downloadAndDecrypt_calls)

lemma download_returns_authenticated:
  "snd (downloadAndDecrypt L N cid pw) = Inr p \<Longrightarrow>
     \<exists>res. fetch_get N (''https://w3s.link/ipfs/'' @ cid) = Inr res \<and> res_ok res
        \<and> secretbox_open L (res_body res) (replicate 24 0) (take 32 pw) = Inr (Some p)"
  by (auto simp add: downloadAndDecrypt_outcome split: sum.splits if_splits option.splits)

text \<open>
  Claim C6. \<open>downloadAndDecrypt\<close> fails closed, with two errors that differ. A response of
  the gateway that is not \<open>ok\<close> gives the error of the storage miss, before any call of
  tweetnacl. A fetched ciphertext whose authentication fails (\<open>secretbox.open\<close> gives
  \<open>null\<close>, as for a wrong key or a flipped bit) gives the error of the decryption failure.
  When the gateway answers and \<open>secretbox.open\<close> gives its verdict, each of the two errors
  is raised in its own case only. Whatever bytes the function returns are the plaintext
  that \<open>secretbox.open\<close> authenticated for the fetched ciphertext. Which changes of a
  ciphertext make authentication fail is tweetnacl's part.
\<close>

theorem decrypt_fails_closed:
  "(fetch_get N (''https://w3s.link/ipfs/'' @ cid) = Inr res \<longrightarrow> \<not> res_ok res \<longrightarrow>
      downloadAndDecrypt L N cid pw
        = ([HttpGet (''https://w3s.link/ipfs/'' @ cid)],
           Inl (Error ''Could not fetch agreement from IPFS'')))
   \<and> (fetch_get N (''https://w3s.link/ipfs/'' @ cid) = Inr res \<longrightarrow> res_ok res \<longrightarrow>
      secretbox_open L (res_body res) (replicate 24 0) (take 32 pw) = Inr None \<longrightarrow>
      downloadAndDecrypt L N cid pw
        = ([HttpGet (''https://w3s.link/ipfs/'' @ cid),
            SecretboxOpen (res_body res) (replicate 24 0) (take 32 pw)],
           Inl (Error ''Agreement decryption failed'')))
   \<and> (fetch_get N (''https://w3s.link/ipfs/'' @ cid) = Inr res \<longrightarrow>
      secretbox_open L (res_body res) (replicate 24 0) (take 32 pw) = Inr r \<longrightarrow>
        (snd (downloadAndDecrypt L N cid pw) = Inl (Error ''Agreement decryption failed'')
           \<longleftrightarrow> res_ok res \<and> r = None)
      \<and> (snd (downloadAndDecrypt L N cid pw) = Inl (Error ''Could not fetch agreement from IPFS'')
           \<longleftrightarrow> \<not> res_ok res))
   \<and> (\<forall>p. snd (downloadAndDecrypt L N cid pw) = Inr p \<longrightarrow>
        (\<exists>res. fetch_get N (''https://w3s.link/ipfs/'' @ cid) = Inr res \<and> res_ok res
           \<and> secretbox_open L (res_body res) (replicate 24 0) (take 32 pw) = Inr (Some p)))
   \<and> Error ''Agreement decryption failed'' \<noteq> Error ''Could not fetch agreement from IPFS''"
proof -
  have a: "fetch_get N (''https://w3s.link/ipfs/'' @ cid) = Inr res \<longrightarrow> \<not> res_ok res \<longrightarrow>
      downloadAndDecrypt L N cid pw
        = ([HttpGet (''https://w3s.link/ipfs/'' @ cid)],
           Inl (Error ''Could not fetch agreement from IPFS''))"
    by (simp add: download_not_found)
  have b: "fetch_get N (''https://w3s.link/ipfs/'' @ cid) = Inr res \<longrightarrow> res_ok res \<longrightarrow>
      secretbox_open L (res_body res) (replicate 24 0) (take 32 pw) = Inr None \<longrightarrow>
      downloadAndDecrypt L N cid pw
        = ([HttpGet (''https://w3s.link/ipfs/'' @ cid),
            SecretboxOpen (res_body res) (replicate 24 0) (take 32 pw)],
           Inl (Error ''Agreement decryption failed''))"
    by (simp add: download_when_answered)
  have c: "fetch_get N (''https://w3s.link/ipfs/'' @ cid) = Inr res \<longrightarrow>
      secretbox_open L (res_body res) (replicate 24 0) (take 32 pw) = Inr r \<longrightarrow>
        (snd (downloadAndDecrypt L N cid pw) = Inl (Error ''Agreement decryption failed'')
           \<longleftrightarrow> res_ok res \<and> r = None)
      \<and> (snd (downloadAndDecrypt L N cid pw) = Inl (Error ''Could not fetch agreement from IPFS'')
           \<longleftrightarrow> \<not> res_ok res)"
    by (cases r) (simp_all add: download_when_answered)
  have d: "\<forall>p. snd (downloadAndDecrypt L N cid pw) = Inr p \<longrightarrow>
        (\<exists>res. fetch_get N (''https://w3s.link/ipfs/'' @ cid) = Inr res \<and> res_ok res
           \<and> secretbox_open L (res_body res) (replicate 24 0) (take 32 pw) = Inr (Some p))"
    using download_returns_authenticated [of L N cid pw] by blast
  from a b c d show ?thesis by simp
qed

text \<open>
  In the instance: a ciphertext with one bit of its first byte flipped (6 for 7), a
  wrong key (8 for 7 throughout), an identifier that the gateway does not serve, and the
  untouched ciphertext under the right key.
\<close>

theorem decrypt_fails_closed_witness:
  "snd (downloadAndDecrypt example_lib
          (example_net [(example_url, 6 # replicate 31 7 @ replicate 24 0 @ [37, 80, 68, 70])])
          example_cid example_key)
     = Inl (Error ''Agreement decryption failed'')
   \<and> snd (downloadAndDecrypt example_lib
          (example_net [(example_url, replicate 32 7 @ replicate 24 0 @ [37, 80, 68, 70])])
          example_cid (replicate 32 8))
     = Inl (Error ''Agreement decryption failed'')
   \<and> downloadAndDecrypt example_lib (example_net []) example_cid example_key
     = ([HttpGet (''https://w3s.link/ipfs/'' @ example_cid)],
        Inl (Error ''Could not fetch agreement from IPFS''))
   \<and> secretbox_open example_lib (replicate 32 7 @ replicate 24 0 @ [37, 80, 68, 70])
        (replicate 24 0) (take 32 example_key) = Inr (Some [37, 80, 68, 70])
   \<and> snd (downloadAndDecrypt example_lib
          (example_net [(example_url, replicate 32 7 @ replicate 24 0 @ [37, 80, 68, 70])])
          example_cid example_key)
     = Inr [37, 80, 68, 70]"
proof -
  let ?good = "replicate 32 7 @ replicate 24 0 @ [37, 80, 68, 70] :: bytes"
  let ?bad = "6 # replicate 31 7 @ replicate 24 0 @ [37, 80, 68, 70] :: bytes"
  have f1: "fetch_get (example_net [(example_url, ?bad)]) (''https://w3s.link/ipfs/'' @ example_cid)
              = Inr \<lparr>res_ok = True, res_body = ?bad\<rparr>"
    by (simp add: example_net_def example_url_def)
  have o1: "secretbox_open example_lib (res_body \<lparr>res_ok = True, res_body = ?bad\<rparr>)
              (replicate 24 0) (take 32 example_key) = Inr None"
    by code_simp
  have f2: "fetch_get (example_net [(example_url, ?good)]) (''https://w3s.link/ipfs/'' @ example_cid)
              = Inr \<lparr>res_ok = True, res_body = ?good\<rparr>"
    by (simp add: example_net_def example_url_def)
  have o2: "secretbox_open example_lib (res_body \<lparr>res_ok = True, res_body = ?good\<rparr>)
              (replicate 24 0) (take 32 (replicate 32 8)) = Inr None"
    by (simp add: example_lib_def)
  have f3: "fetch_get (example_net []) (''https://w3s.link/ipfs/'' @ example_cid)
              = Inr \<lparr>res_ok = False, res_body = []\<rparr>"
    by (simp add: example_net_def)
  have o3: "secretbox_open example_lib (res_body \<lparr>res_ok = False, res_body = []\<rparr>)
              (replicate 24 0) (take 32 example_key) = Inr None"
    by (simp add: example_lib_def example_key_def)
  have o4: "secretbox_open example_lib (res_body \<lparr>res_ok = True, res_body = ?good\<rparr>)
              (replicate 24 0) (take 32 example_key) = Inr (Some [37, 80, 68, 70])"
    by (simp add: example_lib_def example_key_def)
  have d4: "snd (downloadAndDecrypt example_lib (example_net [(example_url, ?good)])
                   example_cid example_key) = Inr [37, 80, 68, 70]"
    by code_simp
  from decrypt_fails_closed [where N = "example_net [(example_url, ?bad)]" and cid = example_cid
         and L = example_lib and pw = example_key
         and res = "\<lparr>res_ok = True, res_body = ?bad\<rparr>" and r = None]
       decrypt_fails_closed [where N = "example_net [(example_url, ?good)]" and cid = example_cid
         and L = example_lib and pw = "replicate 32 8"
         and res = "\<lparr>res_ok = True, res_body = ?good\<rparr>" and r = None]
       decrypt_fails_closed [where N = "example_net []" and cid = example_cid
         and L = example_lib and pw = example_key
         and res = "\<lparr>res_ok = False, res_body = []\<rparr>" and r = None]
       f1 o1 f2 o2 f3 o3 o4 d4
  show ?thesis by simp
qed

section \<open>The key at creation and at signing\<close>

lemma zk_sign_requests:
  "contract_signer C = Some S \<Longrightarrow>
     signing_requests (fst (zk_sign L N C ag slot pdf))
       = [SignTypedData domain encryptionTypes
            [(''Owner Address'', TString (a_owner ag)),
             (''Agreement Identifier'', TString (a_identifier ag)),
             (''CID'', TString (a_cid ag))]]"
  by (simp add: zk_sign_def io_simps Let_def block_calls trace_simps
        readyCheck_def with_signer_def split: sum.splits prod.splits)

lemma zk_createAgreement_requests:
  "contract_signer C = Some S \<Longrightarrow> getAddress S = Inr addr \<Longrightarrow> getCID za = Inr cid \<Longrightarrow>
   toBytes za = Inr pdf0 \<Longrightarrow>
     signing_requests (fst (zk_createAgreement L N C za))
       = [SignTypedData domain encryptionTypes
            [(''Owner Address'', TString addr),
             (''Agreement Identifier'', TString (getIdentifier za)),
             (''CID'', TString (toString L (toV1 L cid)))]]"
  by (simp add: zk_createAgreement_def io_simps Let_def block_calls trace_simps
        readyCheck_def with_signer_def split: sum.splits prod.splits)

lemma zk_getAgreementPDF_requests:
  "contract_signer C = Some S \<Longrightarrow>
     signing_requests (fst (zk_getAgreementPDF L N C ag None))
       = [SignTypedData domain encryptionTypes
            [(''Owner Address'', TString (a_owner ag)),
             (''Agreement Identifier'', TString (a_identifier ag)),
             (''CID'', TString (a_cid ag))]]"
  by (simp add: zk_getAgreementPDF_def zk_getAgreementEncryptionMessage_def io_simps
        block_calls trace_simps readyCheck_def with_signer_def
        split: sum.splits prod.splits)

lemma zk_getSignaturePDF_requests:
  "contract_signer C = Some S \<Longrightarrow>
     signing_requests (fst (zk_getSignaturePDF L N C ag pcid))
       = [SignTypedData domain encryptionTypes
            [(''Owner Address'', TString (a_owner ag)),
             (''Agreement Identifier'', TString (a_identifier ag)),
             (''CID'', TString (a_cid ag))]]"
  by (simp add: zk_getSignaturePDF_def zk_getAgreementEncryptionMessage_def io_simps
        block_calls trace_simps readyCheck_def with_signer_def
        split: sum.splits prod.splits)

lemma zk_sign_keys:
  "contract_signer C = Some S \<Longrightarrow> getAddress S = Inr addr \<Longrightarrow>
     nacl_keys (fst (zk_sign L N C ag slot pdf))
       = (case signTypedData S domain encryptionTypes
                 [(''Owner Address'', TString (a_owner ag)),
                  (''Agreement Identifier'', TString (a_identifier ag)),
                  (''CID'', TString (a_cid ag))] of
            Inl e \<Rightarrow> []
          | Inr sig \<Rightarrow> [take 32 (Buffer_from sig)])"
  by (simp add: zk_sign_def io_simps Let_def block_calls trace_simps
        readyCheck_def with_signer_def split: sum.splits prod.splits)

lemma zk_createAgreement_keys:
  "contract_signer C = Some S \<Longrightarrow> getAddress S = Inr addr \<Longrightarrow> getCID za = Inr cid \<Longrightarrow>
   toBytes za = Inr pdf0 \<Longrightarrow>
     nacl_keys (fst (zk_createAgreement L N C za))
       = (case signTypedData S domain encryptionTypes
                 [(''Owner Address'', TString addr),
                  (''Agreement Identifier'', TString (getIdentifier za)),
                  (''CID'', TString (toString L (toV1 L cid)))] of
            Inl e \<Rightarrow> []
          | Inr sig \<Rightarrow> [take 32 (Buffer_from sig)])"
  by (simp add: zk_createAgreement_def io_simps Let_def block_calls trace_simps
        readyCheck_def with_signer_def split: sum.splits prod.splits)

lemma zk0_sign_requests:
  "contract_signer C = Some S \<Longrightarrow>
     signing_requests (fst (zk0_sign L N C ag slot pdf))
       = [SignTypedData [] AgreementSigner
            [(''Owner Address'', TString (a_owner ag)),
             (''Agreement Identifier'', TString (a_identifier ag)),
             (''Agreement Index'', TNumber (a_index ag)),
             (''Signer Identifier'', TString slot)]]"
  by (simp add: zk0_sign_def io_simps Let_def block_calls trace_simps
        readyCheck_def with_signer_def split: sum.splits prod.splits)

lemma zk0_createAgreement_requests:
  "contract_signer C = Some S \<Longrightarrow>
     signing_requests (fst (zk0_createAgreement L N C za))
       = [SignMessage (''Encrypt PDF for '' @ getIdentifier za)]"
  by (simp add: zk0_createAgreement_def io_simps Let_def block_calls trace_simps
        readyCheck_def with_signer_def split: sum.splits prod.splits)

text \<open>
  Claim C3, as amended. In the class, let an agreement be created on one instance, whose
  signer gives its address, and let the agreement record carry the owner, the identifier
  and the content identifier submitted then. Signing that agreement on any instance with
  a signer requests a signature over the same message as creating did: the typed data of
  owner, identifier and content identifier. Fetching the agreement's PDF or a signature's
  PDF requests it again. The key handed to tweetnacl is made of the first 32 bytes of the
  signature that the instance's own signer gives, at creation and at signing alike; so
  the two keys are equal when the two signers give the same signature, as the same
  signer does, and need not be otherwise. In the earlier revision of the class the
  request at signing always differs from the request at creation.
\<close>

theorem sign_message_and_creation_message:
  assumes "contract_signer C = Some S" and "getAddress S = Inr addr"
      and "getCID za = Inr cid" and "toBytes za = Inr pdf0"
      and "a_owner ag = addr" and "a_identifier ag = getIdentifier za"
      and "a_cid ag = toString L (toV1 L cid)"
      and "contract_signer C' = Some S'" and "getAddress S' = Inr addr'"
  shows "signing_requests (fst (zk_sign L N C' ag slot pdf))
           = signing_requests (fst (zk_createAgreement L N C za))
       \<and> signing_requests (fst (zk_getAgreementPDF L N C' ag None))
           = signing_requests (fst (zk_createAgreement L N C za))
       \<and> signing_requests (fst (zk_getSignaturePDF L N C' ag pcid))
           = signing_requests (fst (zk_createAgreement L N C za))
       \<and> nacl_keys (fst (zk_createAgreement L N C za))
           = (case signTypedData S domain encryptionTypes
                     [(''Owner Address'', TString addr),
                      (''Agreement Identifier'', TString (getIdentifier za)),
                      (''CID'', TString (toString L (toV1 L cid)))] of
                Inl e \<Rightarrow> []
              | Inr sig \<Rightarrow> [take 32 (Buffer_from sig)])
       \<and> nacl_keys (fst (zk_sign L N C' ag slot pdf))
           = (case signTypedData S' domain encryptionTypes
                     [(''Owner Address'', TString addr),
                      (''Agreement Identifier'', TString (getIdentifier za)),
                      (''CID'', TString (toString L (toV1 L cid)))] of
                Inl e \<Rightarrow> []
              | Inr sig \<Rightarrow> [take 32 (Buffer_from sig)])
       \<and> (signTypedData S' domain encryptionTypes
             [(''Owner Address'', TString addr),
              (''Agreement Identifier'', TString (getIdentifier za)),
              (''CID'', TString (toString L (toV1 L cid)))]
           = signTypedData S domain encryptionTypes
             [(''Owner Address'', TString addr),
              (''Agreement Identifier'', TString (getIdentifier za)),
              (''CID'', TString (toString L (toV1 L cid)))]
           \<longrightarrow> nacl_keys (fst (zk_sign L N C' ag slot pdf))
                 = nacl_keys (fst (zk_createAgreement L N C za)))
       \<and> signing_requests (fst (zk0_sign L N C' ag slot pdf))
           \<noteq> signing_requests (fst (zk0_createAgreement L N C za))"
  using assms
  by (simp add: zk_sign_requests [of C' S'] zk_createAgreement_requests [of C S addr za cid pdf0]
        zk_getAgreementPDF_requests [of C' S'] zk_getSignaturePDF_requests [of C' S']
        zk_sign_keys [of C' S' addr'] zk_createAgreement_keys [of C S addr za cid pdf0]
        zk0_sign_requests [of C' S'] zk0_createAgreement_requests [of C S])

theorem sign_message_and_creation_message_witness:
  "contract_signer (example_zksig (Some example_signer)) = Some example_signer
   \<and> getAddress example_signer = Inr ''0xA11CE''
   \<and> getCID example_zksig_agreement = Inr (0, 112, [1, 2, 3])
   \<and> toBytes example_zksig_agreement = Inr [37, 80, 68, 70]
   \<and> a_owner example_agreement = ''0xA11CE''
   \<and> a_identifier example_agreement = getIdentifier example_zksig_agreement
   \<and> a_cid example_agreement = toString example_lib (toV1 example_lib (0, 112, [1, 2, 3]))
   \<and> contract_signer (example_zksig (Some example_signer_bob)) = Some example_signer_bob
   \<and> getAddress example_signer_bob = Inr ''0xB0B''
   \<and> length (signing_requests (fst (zk_sign example_lib (example_net [])
        (example_zksig (Some example_signer_bob)) example_agreement ''employee'' [1, 2]))) = 1
   \<and> signing_requests (fst (zk_sign example_lib (example_net [])
        (example_zksig (Some example_signer_bob)) example_agreement ''employee'' [1, 2]))
      = signing_requests (fst (zk_createAgreement example_lib (example_net [])
        (example_zksig (Some example_signer)) example_zksig_agreement))
   \<and> nacl_keys (fst (zk_sign example_lib (example_net [])
        (example_zksig (Some example_signer)) example_agreement ''employee'' [1, 2]))
      = nacl_keys (fst (zk_createAgreement example_lib (example_net [])
        (example_zksig (Some example_signer)) example_zksig_agreement))"
proof -
  have h: "contract_signer (example_zksig (Some example_signer)) = Some example_signer"
          "getAddress example_signer = Inr ''0xA11CE''"
          "getCID example_zksig_agreement = Inr (0, 112, [1, 2, 3])"
          "toBytes example_zksig_agreement = Inr [37, 80, 68, 70]"
          "a_owner example_agreement = ''0xA11CE''"
          "a_identifier example_agreement = getIdentifier example_zksig_agreement"
          "a_cid example_agreement = toString example_lib (toV1 example_lib (0, 112, [1, 2, 3]))"
    by (simp_all add: example_zksig_def example_signer_def example_zksig_agreement_def
          example_agreement_def example_lib_def)
  have b: "contract_signer (example_zksig (Some example_signer_bob)) = Some example_signer_bob"
          "getAddress example_signer_bob = Inr ''0xB0B''"
    by (simp_all add: example_zksig_def example_signer_bob_def)
  have l: "length (signing_requests (fst (zk_sign example_lib (example_net [])
        (example_zksig (Some example_signer_bob)) example_agreement ''employee'' [1, 2]))) = 1"
    by code_simp
  from sign_message_and_creation_message [OF h b, where N = "example_net []"
         and slot = "''employee''" and pdf = "[1, 2]" and pcid = example_cid]
       sign_message_and_creation_message [OF h h(1,2), where N = "example_net []"
         and slot = "''employee''" and pdf = "[1, 2]" and pcid = example_cid]
       h b l
  show ?thesis by simp
qed

text \<open>
  Claim C3 as stated fails in the class: when another signer than the creator signs the
  agreement, the signature is requested over the same message as at creation, and the
  key handed to tweetnacl differs from the key of the creation.
\<close>

theorem sign_key_counterexample:
  "signing_requests (fst (zk_sign example_lib (example_net [])
      (example_zksig (Some example_signer_bob)) example_agreement ''employee'' [37, 80, 68, 70]))
     = signing_requests (fst (zk_createAgreement example_lib (example_net [])
      (example_zksig (Some example_signer)) example_zksig_agreement))
   \<and> length (nacl_keys (fst (zk_createAgreement example_lib (example_net [])
        (example_zksig (Some example_signer)) example_zksig_agreement))) = 1
   \<and> length (nacl_keys (fst (zk_sign example_lib (example_net [])
        (example_zksig (Some example_signer_bob)) example_agreement ''employee''
        [37, 80, 68, 70]))) = 1
   \<and> nacl_keys (fst (zk_sign example_lib (example_net [])
        (example_zksig (Some example_signer_bob)) example_agreement ''employee''
        [37, 80, 68, 70]))
      \<noteq> nacl_keys (fst (zk_createAgreement example_lib (example_net [])
        (example_zksig (Some example_signer)) example_zksig_agreement))"
  by code_simp

section \<open>Constraints at creation\<close>








section \<open>Reading lists and the ready check\<close>






lemma readyCheck_not_ready:
  "contract_signer C = None \<Longrightarrow>
     readyCheck C
       = ([], Inl (Error ''Use `setSigner` to set an ethers Signer before using contract''))"
  by (simp add: readyCheck_def io_throw_def)










text \<open>
  Claim C10. On an instance without a signer, each of \<open>getProfile\<close>, \<open>getAgreements\<close>,
  \<open>getAgreement\<close>, \<open>getSignatures\<close>, \<open>getSignature\<close>, \<open>createAgreement\<close>, \<open>sign\<close> and
  \<open>getAgreementEncryptionMessage\<close> rejects with the error that asks for \<open>setSigner\<close>, and
  has issued no call by then: not to the signer, the network, tweetnacl or the contract.
\<close>

theorem no_signer_no_call:
  assumes "contract_signer C = None"
  shows "zk_getProfile C
           = ([], Inl (Error ''Use `setSigner` to set an ethers Signer before using contract''))
       \<and> zk_getAgreements C address page perPage
           = ([], Inl (Error ''Use `setSigner` to set an ethers Signer before using contract''))
       \<and> zk_getAgreement C address index
           = ([], Inl (Error ''Use `setSigner` to set an ethers Signer before using contract''))
       \<and> zk_getSignatures C address page perPage
           = ([], Inl (Error ''Use `setSigner` to set an ethers Signer before using contract''))
       \<and> zk_getSignature C address index
           = ([], Inl (Error ''Use `setSigner` to set an ethers Signer before using contract''))
       \<and> zk_createAgreement L N C za
           = ([], Inl (Error ''Use `setSigner` to set an ethers Signer before using contract''))
       \<and> zk_sign L N C ag slot pdf
           = ([], Inl (Error ''Use `setSigner` to set an ethers Signer before using contract''))
       \<and> zk_getAgreementEncryptionMessage C ag
           = ([], Inl (Error ''Use `setSigner` to set an ethers Signer before using contract''))"
  by (simp add: zk_getProfile_def zk_getAgreements_def zk_getAgreement_def zk_getSignatures_def
        zk_getSignature_def zk_createAgreement_def zk_sign_def
        zk_getAgreementEncryptionMessage_def readyCheck_not_ready [OF assms] io_bind_def)

theorem no_signer_no_call_witness:
  "contract_signer (example_zksig None) = None
   \<and> zk_getProfile (example_zksig None)
       = ([], Inl (Error ''Use `setSigner` to set an ethers Signer before using contract''))
   \<and> zk_createAgreement example_lib (example_net []) (example_zksig None)
        example_zksig_agreement
       = ([], Inl (Error ''Use `setSigner` to set an ethers Signer before using contract''))
   \<and> zk_sign example_lib (example_net []) (example_zksig None) example_agreement ''employee''
        [37, 80, 68, 70]
       = ([], Inl (Error ''Use `setSigner` to set an ethers Signer before using contract''))"
proof -
  have n: "contract_signer (example_zksig None) = None"
    by (simp add: example_zksig_def)
  from no_signer_no_call [OF n, where L = example_lib and N = "example_net []"
         and za = example_zksig_agreement and ag = example_agreement
         and slot = "''employee''" and pdf = "[37, 80, 68, 70]" and address = None
         and page = "Integer 1" and perPage = "Integer 10" and index = "Integer 0"] n
  show ?thesis by simp
qed

section \<open>The constraint validator\<close>

lemma find_no_slot:
  "\<forall>c \<in> set cs. sc_identifier c \<noteq> slot \<Longrightarrow> find (\<lambda>x. sc_identifier x = slot) cs = None"
  by (induction cs) simp_all

lemma find_the_slot:
  "distinct (map sc_identifier cs) \<Longrightarrow> c \<in> set cs \<Longrightarrow>
     find (\<lambda>x. sc_identifier x = sc_identifier c) cs = Some c"
proof (induction cs)
  case Nil
  then show ?case by simp
next
  case (Cons x xs)
  show ?case
  proof (cases "c = x")
    case True
    then show ?thesis by simp
  next
    case False
    with Cons.prems have in_xs: "c \<in> set xs" by simp
    then have "sc_identifier c \<in> sc_identifier ` set xs" by (rule imageI)
    with Cons.prems(1) have "sc_identifier x \<noteq> sc_identifier c" by auto
    moreover from Cons.prems(1) have "distinct (map sc_identifier xs)" by simp
    ultimately show ?thesis using Cons.IH in_xs by simp
  qed
qed

lemma find_commit:
  "find (\<lambda>x. sc_identifier x = slot) cs = Some c \<Longrightarrow> sc_identifier c' = slot \<Longrightarrow>
     find (\<lambda>x. sc_identifier x = slot) (commit cs c') = Some c'"
proof (induction cs)
  case Nil
  then show ?case by simp
next
  case (Cons x xs)
  show ?case
  proof (cases "sc_identifier x = slot")
    case True
    with Cons.prems(2) show ?thesis by (simp add: commit_def)
  next
    case False
    with Cons.prems have "find (\<lambda>x. sc_identifier x = slot) xs = Some c" by simp
    from Cons.IH [OF this Cons.prems(2)] False Cons.prems(2) show ?thesis
      by (simp add: commit_def)
  qed
qed

lemma find_slot_identifier:
  "find (\<lambda>x. sc_identifier x = slot) cs = Some c \<Longrightarrow> sc_identifier c = slot"
  by (induction cs) (simp_all split: if_splits)

lemma authorize_times_unlimited:
  "find (\<lambda>x. sc_identifier x = slot) cs = Some c \<Longrightarrow> sc_allowedToUse c = 0 \<Longrightarrow>
   sc_signer c = AddressZero \<or> sc_signer c = s \<Longrightarrow>
     \<exists>cs'. authorize_times n cs slot s = Some cs'
        \<and> find (\<lambda>x. sc_identifier x = slot) cs'
            = Some (c\<lparr>sc_totalUsed := sc_totalUsed c + int n\<rparr>)"
proof (induction n arbitrary: cs c)
  case 0
  then show ?case by simp
next
  case (Suc n)
  let ?c1 = "c\<lparr>sc_totalUsed := sc_totalUsed c + 1\<rparr>"
  from Suc.prems have a: "authorize cs slot s = Authorized ?c1"
    by (simp add: authorize_def)
  from find_slot_identifier [OF Suc.prems(1)] have "sc_identifier ?c1 = slot"
    by simp
  with Suc.prems(1) have f: "find (\<lambda>x. sc_identifier x = slot) (commit cs ?c1) = Some ?c1"
    by (rule find_commit)
  from Suc.prems have "sc_allowedToUse ?c1 = 0" "sc_signer ?c1 = AddressZero \<or> sc_signer ?c1 = s"
    by simp_all
  from Suc.IH [OF f this] a show ?case
    by (simp add: add.assoc)
qed

text \<open>
  Claim C7. For every constraint list, slot identifier and signer: when no constraint has
  the slot's identifier, \<open>authorize\<close> is \<open>Denied NoSuchSlot\<close>. Otherwise, for the constraint
  of that identifier (the identifiers of a list being distinct): a signer that is neither
  the wildcard nor the proposed signer gives \<open>Denied WrongSigner\<close>; else a nonzero
  \<open>allowedToUse\<close> that \<open>totalUsed\<close> has reached gives \<open>Denied ExhaustedSlot\<close>; else the result
  is \<open>Authorized\<close> with \<open>totalUsed\<close> one higher. With \<open>allowedToUse = 0\<close> any number of calls
  in a row succeed, each committed before the next, and leave \<open>totalUsed\<close> raised by that
  number.
\<close>

theorem authorize_by_cases:
  "((\<forall>c \<in> set cs. sc_identifier c \<noteq> slot) \<longrightarrow> authorize cs slot s = Denied NoSuchSlot)
   \<and> (distinct (map sc_identifier cs) \<longrightarrow> c \<in> set cs \<longrightarrow> sc_identifier c = slot \<longrightarrow>
        (sc_signer c \<noteq> AddressZero \<and> sc_signer c \<noteq> s \<longrightarrow>
           authorize cs slot s = Denied WrongSigner)
      \<and> ((sc_signer c = AddressZero \<or> sc_signer c = s)
           \<and> sc_allowedToUse c \<noteq> 0 \<and> sc_totalUsed c \<ge> sc_allowedToUse c \<longrightarrow>
           authorize cs slot s = Denied ExhaustedSlot)
      \<and> ((sc_signer c = AddressZero \<or> sc_signer c = s)
           \<and> (sc_allowedToUse c = 0 \<or> sc_totalUsed c < sc_allowedToUse c) \<longrightarrow>
           authorize cs slot s = Authorized (c\<lparr>sc_totalUsed := sc_totalUsed c + 1\<rparr>))
      \<and> ((sc_signer c = AddressZero \<or> sc_signer c = s) \<and> sc_allowedToUse c = 0 \<longrightarrow>
           (\<forall>n. \<exists>cs'. authorize_times n cs slot s = Some cs'
                  \<and> find (\<lambda>x. sc_identifier x = slot) cs'
                      = Some (c\<lparr>sc_totalUsed := sc_totalUsed c + int n\<rparr>))))"
proof -
  have none: "(\<forall>c \<in> set cs. sc_identifier c \<noteq> slot) \<longrightarrow> authorize cs slot s = Denied NoSuchSlot"
    by (simp add: authorize_def find_no_slot)
  have some: "(sc_signer c \<noteq> AddressZero \<and> sc_signer c \<noteq> s \<longrightarrow>
           authorize cs slot s = Denied WrongSigner)
      \<and> ((sc_signer c = AddressZero \<or> sc_signer c = s)
           \<and> sc_allowedToUse c \<noteq> 0 \<and> sc_totalUsed c \<ge> sc_allowedToUse c \<longrightarrow>
           authorize cs slot s = Denied ExhaustedSlot)
      \<and> ((sc_signer c = AddressZero \<or> sc_signer c = s)
           \<and> (sc_allowedToUse c = 0 \<or> sc_totalUsed c < sc_allowedToUse c) \<longrightarrow>
           authorize cs slot s = Authorized (c\<lparr>sc_totalUsed := sc_totalUsed c + 1\<rparr>))
      \<and> ((sc_signer c = AddressZero \<or> sc_signer c = s) \<and> sc_allowedToUse c = 0 \<longrightarrow>
           (\<forall>n. \<exists>cs'. authorize_times n cs slot s = Some cs'
                  \<and> find (\<lambda>x. sc_identifier x = slot) cs'
                      = Some (c\<lparr>sc_totalUsed := sc_totalUsed c + int n\<rparr>)))"
    if "distinct (map sc_identifier cs)" "c \<in> set cs" "sc_identifier c = slot"
  proof -
    from that have f: "find (\<lambda>x. sc_identifier x = slot) cs = Some c"
      using find_the_slot [of cs c] by simp
    have "authorize cs slot s =
            (if sc_signer c \<noteq> AddressZero \<and> sc_signer c \<noteq> s then Denied WrongSigner
             else if sc_allowedToUse c \<noteq> 0 \<and> sc_totalUsed c \<ge> sc_allowedToUse c
             then Denied ExhaustedSlot
             else Authorized (c\<lparr>sc_totalUsed := sc_totalUsed c + 1\<rparr>))"
      by (simp add: authorize_def f)
    moreover have "(sc_signer c = AddressZero \<or> sc_signer c = s) \<and> sc_allowedToUse c = 0 \<longrightarrow>
           (\<forall>n. \<exists>cs'. authorize_times n cs slot s = Some cs'
                  \<and> find (\<lambda>x. sc_identifier x = slot) cs'
                      = Some (c\<lparr>sc_totalUsed := sc_totalUsed c + int n\<rparr>))"
      using authorize_times_unlimited [OF f, of s] by blast
    ultimately show ?thesis by (simp split: if_splits)
  qed
  show ?thesis
    by (rule conjI [OF none]) (intro impI, rule some, assumption+)
qed

theorem authorize_by_cases_witness:
  "authorize example_constraints ''manager'' ''0xA11CE'' = Denied NoSuchSlot
   \<and> authorize example_constraints ''witness'' ''0xA11CE'' = Denied WrongSigner
   \<and> authorize example_constraints ''employee'' ''0xA11CE''
       = Authorized \<lparr>sc_identifier = ''employee'', sc_signer = AddressZero,
                     sc_totalUsed = 1, sc_allowedToUse = 1\<rparr>
   \<and> authorize
        (commit example_constraints
           \<lparr>sc_identifier = ''employee'', sc_signer = AddressZero,
            sc_totalUsed = 1, sc_allowedToUse = 1\<rparr>) ''employee'' ''0xA11CE''
       = Denied ExhaustedSlot
   \<and> (\<exists>cs'. authorize_times 3 example_constraints ''witness'' ''0xB0B'' = Some cs'
          \<and> find (\<lambda>x. sc_identifier x = ''witness'') cs'
              = Some \<lparr>sc_identifier = ''witness'', sc_signer = ''0xB0B'',
                      sc_totalUsed = 8, sc_allowedToUse = 0\<rparr>)"
proof -
  let ?e = "\<lparr>sc_identifier = ''employee'', sc_signer = AddressZero,
             sc_totalUsed = 0, sc_allowedToUse = 1\<rparr>"
  let ?e1 = "\<lparr>sc_identifier = ''employee'', sc_signer = AddressZero,
             sc_totalUsed = 1, sc_allowedToUse = 1\<rparr>"
  let ?w = "\<lparr>sc_identifier = ''witness'', sc_signer = ''0xB0B'',
             sc_totalUsed = 5, sc_allowedToUse = 0\<rparr>"
  have d: "distinct (map sc_identifier example_constraints)"
          "distinct (map sc_identifier (commit example_constraints ?e1))"
    by (simp_all add: example_constraints_def commit_def)
  have m: "?e \<in> set example_constraints" "?w \<in> set example_constraints"
          "?e1 \<in> set (commit example_constraints ?e1)"
          "\<forall>c \<in> set example_constraints. sc_identifier c \<noteq> ''manager''"
    by (simp_all add: example_constraints_def commit_def)
  have z: "''0xB0B'' \<noteq> AddressZero" "''0xB0B'' \<noteq> ''0xA11CE''"
    by (simp_all add: AddressZero_def)
  from authorize_by_cases [where cs = example_constraints and slot = "''manager''"
         and s = "''0xA11CE''" and c = ?e]
       authorize_by_cases [where cs = example_constraints and slot = "''witness''"
         and s = "''0xA11CE''" and c = ?w]
       authorize_by_cases [where cs = example_constraints and slot = "''employee''"
         and s = "''0xA11CE''" and c = ?e]
       authorize_by_cases [where cs = "commit example_constraints ?e1" and slot = "''employee''"
         and s = "''0xA11CE''" and c = ?e1]
       authorize_by_cases [where cs = example_constraints and slot = "''witness''"
         and s = "''0xB0B''" and c = ?w, THEN conjunct2, rule_format, OF d(1) m(2),
         THEN conjunct2, THEN conjunct2, THEN conjunct2, rule_format, of 3]
       d m z
  show ?thesis by simp
qed

end
